theory Spec2Isabelle
  imports Main "HOL-Library.Sublist"
begin

section \<open>Python values as they come out of a JSON document\<close>

text \<open>
  Everything the handler of \<^verbatim>\<open>main.py\<close> touches was parsed from JSON: the request
  body, the reply of the model, the payload embedded in it. The handler never checks a
  type, so the model keeps all of them apart and writes out what Python does on each.
  Numbers are restricted to integers. An object is an association list read with
  \<open>map_of\<close>, so an entry behind an earlier one with the same key is not part of the dict.
\<close>

datatype json =
    JNull
  | JBool bool
  | JNum int
  | JStr string
  | JArr "json list"
  | JObj "(string \<times> json) list"

text \<open>Truth value of a Python object, as used by \<^verbatim>\<open>not x\<close> and \<^verbatim>\<open>if x:\<close>.\<close>

fun truthy :: "json \<Rightarrow> bool" where
  "truthy JNull = False"
| "truthy (JBool b) = b"
| "truthy (JNum n) = (n \<noteq> 0)"
| "truthy (JStr s) = (s \<noteq> [])"
| "truthy (JArr xs) = (xs \<noteq> [])"
| "truthy (JObj kvs) = (kvs \<noteq> [])"

text \<open>
  \<^verbatim>\<open>k in x\<close> for a string \<open>k\<close>: key membership on a dict, element membership on a
  list, substring test on a string, and a TypeError (\<open>None\<close>) on everything else.
\<close>

fun py_in :: "string \<Rightarrow> json \<Rightarrow> bool option" where
  "py_in k (JObj kvs) = Some (map_of kvs k \<noteq> None)"
| "py_in k (JArr xs) = Some (JStr k \<in> set xs)"
| "py_in k (JStr s) = Some (sublist k s)"
| "py_in k JNull = None"
| "py_in k (JBool b) = None"
| "py_in k (JNum n) = None"

text \<open>\<^verbatim>\<open>x[k]\<close> for a string \<open>k\<close>: only a dict that has the key answers.\<close>

fun py_item :: "json \<Rightarrow> string \<Rightarrow> json option" where
  "py_item (JObj kvs) k = map_of kvs k"
| "py_item JNull k = None"
| "py_item (JBool b) k = None"
| "py_item (JNum n) k = None"
| "py_item (JStr s) k = None"
| "py_item (JArr xs) k = None"

text \<open>\<^verbatim>\<open>x[0]\<close>: the head of a non-empty list, the first character of a non-empty string.\<close>

fun py_item0 :: "json \<Rightarrow> json option" where
  "py_item0 (JArr (x # xs)) = Some x"
| "py_item0 (JStr (c # cs)) = Some (JStr [c])"
| "py_item0 (JArr []) = None"
| "py_item0 (JStr []) = None"
| "py_item0 JNull = None"
| "py_item0 (JBool b) = None"
| "py_item0 (JNum n) = None"
| "py_item0 (JObj kvs) = None"

text \<open>\<^verbatim>\<open>x.get(k, d)\<close>: an AttributeError (\<open>None\<close>) unless \<open>x\<close> is a dict.\<close>

definition dict_get :: "(string \<times> json) list \<Rightarrow> string \<Rightarrow> json \<Rightarrow> json" where
  "dict_get kvs k d = (case map_of kvs k of None \<Rightarrow> d | Some v \<Rightarrow> v)"

fun py_get :: "json \<Rightarrow> string \<Rightarrow> json \<Rightarrow> json option" where
  "py_get (JObj kvs) k d = Some (dict_get kvs k d)"
| "py_get JNull k d = None"
| "py_get (JBool b) k d = None"
| "py_get (JNum n) k d = None"
| "py_get (JStr s) k d = None"
| "py_get (JArr xs) k d = None"

text \<open>\<^verbatim>\<open>for m in x\<close>: the elements of a list, the keys of a dict, the characters of a string.\<close>

fun py_iter :: "json \<Rightarrow> json list option" where
  "py_iter (JArr xs) = Some xs"
| "py_iter (JObj kvs) = Some (map (\<lambda>kv. JStr (fst kv)) kvs)"
| "py_iter (JStr s) = Some (map (\<lambda>c. JStr [c]) s)"
| "py_iter JNull = None"
| "py_iter (JBool b) = None"
| "py_iter (JNum n) = None"

text \<open>\<^verbatim>\<open>x.append(v)\<close>: only a list has the method.\<close>

fun py_append :: "json \<Rightarrow> json \<Rightarrow> json option" where
  "py_append (JArr xs) v = Some (JArr (xs @ [v]))"
| "py_append JNull v = None"
| "py_append (JBool b) v = None"
| "py_append (JNum n) v = None"
| "py_append (JStr s) v = None"
| "py_append (JObj kvs) v = None"

fun py_len :: "json \<Rightarrow> nat" where
  "py_len (JArr xs) = length xs"
| "py_len (JStr s) = length s"
| "py_len (JObj kvs) = length kvs"
| "py_len JNull = 0"
| "py_len (JBool b) = 0"
| "py_len (JNum n) = 0"

text \<open>
  Keys of \<^verbatim>\<open>session_store\<close>. Lists and dicts are unhashable (\<open>None\<close>); \<^verbatim>\<open>True\<close> and
  \<^verbatim>\<open>1\<close> are the same key, as are \<^verbatim>\<open>False\<close> and \<^verbatim>\<open>0\<close>.
\<close>

datatype skey = KNone | KNum int | KStr string

fun hash_key :: "json \<Rightarrow> skey option" where
  "hash_key JNull = Some KNone"
| "hash_key (JBool b) = Some (KNum (if b then 1 else 0))"
| "hash_key (JNum n) = Some (KNum n)"
| "hash_key (JStr s) = Some (KStr s)"
| "hash_key (JArr xs) = None"
| "hash_key (JObj kvs) = None"

section \<open>State, collaborators and results\<close>

text \<open>One entry of \<^verbatim>\<open>session_store\<close> (lines 169-173).\<close>

record session =
  history :: json
  intelligence :: json
  agent_notes :: json

type_synonym session_store = "skey \<rightharpoonup> session"

text \<open>
  What \<^verbatim>\<open>requests.post\<close> does: it raises a \<^verbatim>\<open>RequestException\<close> (no connection,
  timeout) or hands back a response. \<open>json_body\<close> is the value of \<^verbatim>\<open>response.json()\<close>,
  \<open>None\<close> when that call raises a decode error.
\<close>

record http_response =
  status_code :: nat
  json_body :: "json option"
  body_text :: string

datatype post_result = RequestException | Response http_response

text \<open>
  The process environment and the two library functions whose results the handler uses:
  \<^verbatim>\<open>json.loads\<close> on a string (\<open>None\<close> when it raises) and the formatting of a value
  inside an f-string.
\<close>

record env =
  YOUR_API_KEY :: string
  json_loads :: "string \<Rightarrow> json option"
  py_str :: "json \<Rightarrow> string"

text \<open>
  What the handler reads of a request: the value of \<^verbatim>\<open>request.headers.get('x-api-key')\<close>
  and the value of \<^verbatim>\<open>request.get_json()\<close>, which may be any JSON value. A request whose
  body the framework cannot parse is answered by the framework and never reaches line 107.
\<close>

record request =
  x_api_key :: "string option"
  body :: json

text \<open>Outbound calls and log lines, in the order the handler makes them.\<close>

datatype event =
    GeminiPost json
  | ReportPost json
  | CallbackSent nat
  | CallbackError string
  | CallbackFailed

text \<open>
  The lines the code prints, each with the values it formats: the session id and the
  status (line 89), the text of the report's response (line 91), the session id (lines
  93 and 212, together with the exception), the failed response of the model (line 193)
  and the message for the caller (line 209). \<^verbatim>\<open>print\<close> raises when the standard output
  cannot encode the text, as for a session id that is one lone surrogate. A standard
  output is given by the lines it takes; \<open>every_line\<close> takes them all.
\<close>

datatype log_line =
    CallbackSentLine json nat
  | CallbackErrorLine string
  | CallbackFailedLine json
  | HttpErrorLine http_response
  | ErrorMessageLine string
  | ProcessingErrorLine json

definition every_line :: "log_line \<Rightarrow> bool" where
  "every_line l = True"

text \<open>
  What the view function does: it returns \<^verbatim>\<open>jsonify(body), code\<close>, or an exception
  leaves it (\<open>Unhandled\<close>) and the framework answers in its place.
\<close>

datatype outcome = Returned json nat | Unhandled

section \<open>The helper: \<^verbatim>\<open>send_final_report\<close> (lines 77-93)\<close>

definition report_payload :: "json \<Rightarrow> nat \<Rightarrow> json \<Rightarrow> json \<Rightarrow> json" where
  "report_payload session_id total_messages intel notes =
     JObj [(''sessionId'', session_id),
           (''scamDetected'', JBool True),
           (''totalMessagesExchanged'', JNum (int total_messages)),
           (''extractedIntelligence'', intel),
           (''agentNotes'', notes)]"

text \<open>
  The result is \<open>Inr ()\<close> when the function returns and \<open>Inl ()\<close> when an exception
  leaves it; the second component is what it sent and printed. The clause of line 92
  catches the \<^verbatim>\<open>RequestException\<close> of the post and nothing else: the error of a
  \<^verbatim>\<open>print\<close> inside the \<^verbatim>\<open>try\<close> block (lines 89 and 91) or inside the clause itself
  (line 93) leaves the function.
\<close>

definition send_final_report ::
  "(log_line \<Rightarrow> bool) \<Rightarrow> post_result \<Rightarrow> json \<Rightarrow> nat \<Rightarrow> json \<Rightarrow> json
     \<Rightarrow> (unit + unit) \<times> event list" where
  "send_final_report stdout post session_id total_messages intel notes =
     (case post of
        RequestException \<Rightarrow>
          if stdout (CallbackFailedLine session_id)
          then (Inr (), [ReportPost (report_payload session_id total_messages intel notes),
                         CallbackFailed])
          else (Inl (), [ReportPost (report_payload session_id total_messages intel notes)])
      | Response r \<Rightarrow>
          if \<not> stdout (CallbackSentLine session_id (status_code r))
          then (Inl (), [ReportPost (report_payload session_id total_messages intel notes)])
          else if status_code r = 200
          then (Inr (), [ReportPost (report_payload session_id total_messages intel notes),
                         CallbackSent (status_code r)])
          else if stdout (CallbackErrorLine (body_text r))
          then (Inr (), [ReportPost (report_payload session_id total_messages intel notes),
                         CallbackSent (status_code r), CallbackError (body_text r)])
          else (Inl (), [ReportPost (report_payload session_id total_messages intel notes),
                         CallbackSent (status_code r)]))"

section \<open>The endpoint: \<^verbatim>\<open>handle_honeypot_request\<close> (lines 98-213)\<close>

definition error_response :: "string \<Rightarrow> nat \<Rightarrow> outcome" where
  "error_response msg code =
     Returned (JObj [(''status'', JStr ''error''), (''message'', JStr msg)]) code"

text \<open>Lines 101-103: the header is there, not empty, and equal to the secret.\<close>

definition authorized :: "env \<Rightarrow> request \<Rightarrow> bool" where
  "authorized e req =
     (case x_api_key req of
        None \<Rightarrow> False
      | Some api_key \<Rightarrow> api_key \<noteq> [] \<and> api_key = YOUR_API_KEY e)"

text \<open>
  Lines 106-111. The three tests are joined by \<^verbatim>\<open>or\<close> and evaluated left to right;
  \<^verbatim>\<open>in\<close> on a number or a boolean raises, and so does the subscript on a list or
  a string that passed the membership tests. None of this is inside the \<^verbatim>\<open>try\<close>.
\<close>

definition validate :: "json \<Rightarrow> outcome + (json \<times> json)" where
  "validate data =
     (if \<not> truthy data then Inl (error_response ''Invalid request body'' 400)
      else case py_in ''sessionId'' data of
        None \<Rightarrow> Inl Unhandled
      | Some False \<Rightarrow> Inl (error_response ''Invalid request body'' 400)
      | Some True \<Rightarrow>
         (case py_in ''message'' data of
            None \<Rightarrow> Inl Unhandled
          | Some False \<Rightarrow> Inl (error_response ''Invalid request body'' 400)
          | Some True \<Rightarrow>
             (case py_item data ''sessionId'' of
                None \<Rightarrow> Inl Unhandled
              | Some session_id \<Rightarrow>
                 (case py_item data ''message'' of
                    None \<Rightarrow> Inl Unhandled
                  | Some incoming_message \<Rightarrow> Inr (session_id, incoming_message)))))"

text \<open>
  Lines 113-115. The result is the list the handler works on, and the key under which
  that very list object sits in the store when it was taken from there (\<open>None\<close> when the
  list belongs to the request). The membership test on the store is evaluated only for
  a falsy caller history, and raises on an unhashable session id.
\<close>

definition resolve_history ::
  "json \<Rightarrow> json \<Rightarrow> session_store \<Rightarrow> (json \<times> skey option) option" where
  "resolve_history data session_id store =
     (case py_get data ''conversationHistory'' (JArr []) of
        None \<Rightarrow> None
      | Some conversation_history \<Rightarrow>
          if \<not> truthy conversation_history then
            (case hash_key session_id of
               None \<Rightarrow> None
             | Some k \<Rightarrow>
                (case store k of
                   None \<Rightarrow> Some (conversation_history, None)
                 | Some s \<Rightarrow> Some (history s, Some k)))
          else Some (conversation_history, None))"

text \<open>Lines 133-134: one entry of \<^verbatim>\<open>contents\<close>.\<close>

definition content_entry :: "json \<Rightarrow> json option" where
  "content_entry message =
     (case py_get message ''sender'' JNull of
        None \<Rightarrow> None
      | Some sender \<Rightarrow>
         (case py_get message ''text'' (JStr []) of
            None \<Rightarrow> None
          | Some t \<Rightarrow>
              Some (JObj [(''role'', JStr (if sender = JStr ''scammer'' then ''user'' else ''model'')),
                          (''parts'', JArr [JObj [(''text'', t)]])])))"

fun history_contents :: "json list \<Rightarrow> json list option" where
  "history_contents [] = Some []"
| "history_contents (m # ms) =
     (case content_entry m of
        None \<Rightarrow> None
      | Some c \<Rightarrow>
         (case history_contents ms of
            None \<Rightarrow> None
          | Some cs \<Rightarrow> Some (c # cs)))"

text \<open>Lines 130-137; \<open>None\<close> when the loop or the last \<^verbatim>\<open>.get\<close> raises.\<close>

definition build_contents :: "json \<Rightarrow> json \<Rightarrow> json option" where
  "build_contents conversation_history incoming_message =
     (case py_iter conversation_history of
        None \<Rightarrow> None
      | Some ms \<Rightarrow>
         (case history_contents ms of
            None \<Rightarrow> None
          | Some cs \<Rightarrow>
             (case py_get incoming_message ''text'' (JStr []) of
                None \<Rightarrow> None
              | Some t \<Rightarrow>
                  Some (JArr (cs @ [JObj [(''role'', JStr ''user''),
                                          (''parts'', JArr [JObj [(''text'', t)]])]])))))"

text \<open>Line 153: \<^verbatim>\<open>response_data['candidates'][0]['content']['parts'][0]['text']\<close>.\<close>

definition model_output_text :: "json \<Rightarrow> json option" where
  "model_output_text response_data =
     Option.bind (py_item response_data ''candidates'') (\<lambda>cands.
     Option.bind (py_item0 cands) (\<lambda>cand.
     Option.bind (py_item cand ''content'') (\<lambda>content.
     Option.bind (py_item content ''parts'') (\<lambda>parts.
     Option.bind (py_item0 parts) (\<lambda>part.
     py_item part ''text'')))))"

text \<open>
  Lines 148-154. The two \<^verbatim>\<open>except\<close> clauses tell an \<^verbatim>\<open>HTTPError\<close>, which only
  \<^verbatim>\<open>raise_for_status\<close> raises (status 400 to 599), from every other exception.
\<close>

datatype failure = HTTPError http_response | OtherException

definition call_gemini :: "env \<Rightarrow> post_result \<Rightarrow> failure + json" where
  "call_gemini e post =
     (case post of
        RequestException \<Rightarrow> Inl OtherException
      | Response r \<Rightarrow>
          if 400 \<le> status_code r \<and> status_code r < 600 then Inl (HTTPError r)
          else
            (case json_body r of
               None \<Rightarrow> Inl OtherException
             | Some response_data \<Rightarrow>
                (case model_output_text response_data of
                   Some (JStr s) \<Rightarrow>
                     (case json_loads e s of
                        None \<Rightarrow> Inl OtherException
                      | Some model_output \<Rightarrow> Inr model_output)
                 | _ \<Rightarrow> Inl OtherException)))"

text \<open>
  Lines 195-207: the message for the caller. Only the decode error of
  \<^verbatim>\<open>response.json()\<close> is caught there; a TypeError of \<^verbatim>\<open>in\<close> or of a subscript is
  not (\<open>None\<close>).
\<close>

definition error_message :: "env \<Rightarrow> http_response \<Rightarrow> string option" where
  "error_message e r =
     (case json_body r of
        None \<Rightarrow> Some (''AI Service Error (non-JSON): '' @ body_text r)
      | Some error_details \<Rightarrow>
         (case py_in ''error'' error_details of
            None \<Rightarrow> None
          | Some False \<Rightarrow> Some (''AI Service Error (unstructured): '' @ body_text r)
          | Some True \<Rightarrow>
             (case py_item error_details ''error'' of
                None \<Rightarrow> None
              | Some err \<Rightarrow>
                 (case py_in ''message'' err of
                    None \<Rightarrow> None
                  | Some False \<Rightarrow> Some (''AI Service Error (unstructured): '' @ body_text r)
                  | Some True \<Rightarrow>
                     (case py_item err ''message'' of
                        None \<Rightarrow> None
                      | Some m \<Rightarrow> Some (''AI Service Error: '' @ py_str e m))))))"

text \<open>
  Lines 192-210, the clause for an \<^verbatim>\<open>HTTPError\<close>. An exception raised inside the clause,
  by one of its two prints or while the message is made, leaves the handler.
\<close>

definition on_http_error :: "(log_line \<Rightarrow> bool) \<Rightarrow> env \<Rightarrow> http_response \<Rightarrow> outcome" where
  "on_http_error stdout e r =
     (if \<not> stdout (HttpErrorLine r) then Unhandled
      else case error_message e r of
        None \<Rightarrow> Unhandled
      | Some m \<Rightarrow> if stdout (ErrorMessageLine m) then error_response m 502 else Unhandled)"

definition internal_error :: outcome where
  "internal_error = error_response ''Internal server error'' 500"

text \<open>Lines 211-213, the clause for every other exception: it prints, then answers.\<close>

definition on_exception :: "(log_line \<Rightarrow> bool) \<Rightarrow> json \<Rightarrow> outcome" where
  "on_exception stdout session_id =
     (if stdout (ProcessingErrorLine session_id) then internal_error else Unhandled)"

text \<open>
  Lines 162 and 163: \<^verbatim>\<open>conversation_history.append(v)\<close> changes the list in place.
  When the list is the one held by the store under \<open>k\<close>, the stored session changes
  with it, before line 169 is reached.
\<close>

definition append_history ::
  "skey option \<Rightarrow> json \<Rightarrow> json \<Rightarrow> session_store \<Rightarrow> (json \<times> session_store) option" where
  "append_history shared conversation_history v store =
     (case py_append conversation_history v of
        None \<Rightarrow> None
      | Some h \<Rightarrow>
          Some (h, case shared of
                     None \<Rightarrow> store
                   | Some k \<Rightarrow>
                      (case store k of
                         None \<Rightarrow> store
                       | Some s \<Rightarrow> store(k \<mapsto> s\<lparr>history := h\<rparr>))))"

definition agent_turn :: "json \<Rightarrow> json" where
  "agent_turn agent_reply_text =
     JObj [(''sender'', JStr ''agent''), (''text'', agent_reply_text), (''timestamp'', JStr ''N/A'')]"

definition success_response :: "json \<Rightarrow> json \<Rightarrow> json \<Rightarrow> json \<Rightarrow> json \<Rightarrow> outcome" where
  "success_response agent_reply_text is_over session_id intel notes =
     Returned (JObj [(''status'', JStr ''success''),
                     (''agentReply'', agent_reply_text),
                     (''conversationIsOver'', is_over),
                     (''sessionId'', session_id),
                     (''extractedIntelligence'', intel),
                     (''agentNotes'', notes)]) 200"

text \<open>
  Lines 156-190, with the clause of line 211 written at each place where a statement
  of the \<^verbatim>\<open>try\<close> block raises, the call of \<^verbatim>\<open>send_final_report\<close> included. Each
  result carries the store as it is at that moment.
\<close>

definition complete_turn ::
  "(log_line \<Rightarrow> bool) \<Rightarrow> post_result \<Rightarrow> json \<Rightarrow> json \<Rightarrow> json \<Rightarrow> skey option \<Rightarrow> json \<Rightarrow> session_store
     \<Rightarrow> outcome \<times> session_store \<times> event list" where
  "complete_turn stdout report session_id incoming_message conversation_history shared model_output
     store =
     (case py_get model_output ''agentResponseText'' JNull of
        None \<Rightarrow> (on_exception stdout session_id, store, [])
      | Some agent_reply_text \<Rightarrow>
     (case py_get model_output ''isConversationOver'' (JBool False) of
        None \<Rightarrow> (on_exception stdout session_id, store, [])
      | Some is_over \<Rightarrow>
     (case py_get model_output ''extractedIntelligence'' (JObj []) of
        None \<Rightarrow> (on_exception stdout session_id, store, [])
      | Some intel \<Rightarrow>
     (case py_get model_output ''agentNotes'' (JStr []) of
        None \<Rightarrow> (on_exception stdout session_id, store, [])
      | Some notes \<Rightarrow>
     (case append_history shared conversation_history incoming_message store of
        None \<Rightarrow> (on_exception stdout session_id, store, [])
      | Some (h1, store1) \<Rightarrow>
     (case append_history shared h1 (agent_turn agent_reply_text) store1 of
        None \<Rightarrow> (on_exception stdout session_id, store1, [])
      | Some (h2, store2) \<Rightarrow>
     (case hash_key session_id of
        None \<Rightarrow> (on_exception stdout session_id, store2, [])
      | Some k \<Rightarrow>
         (let store3 = store2(k \<mapsto> \<lparr>history = h2, intelligence = intel, agent_notes = notes\<rparr>)
          in if truthy is_over then
               (case send_final_report stdout report session_id (py_len h2) intel notes of
                  (Inl u, evs) \<Rightarrow> (on_exception stdout session_id, store3, evs)
                | (Inr u, evs) \<Rightarrow>
                    (success_response agent_reply_text is_over session_id intel notes,
                     store3(k := None), evs))
             else
               (success_response agent_reply_text is_over session_id intel notes,
                store3, [])))))))))"

text \<open>
  The whole view function. \<open>stdout\<close> says which lines can be printed; \<open>gemini\<close> and
  \<open>report\<close> are what the two outbound calls meet when they are made; the result is
  what the caller gets, the store afterwards and the calls made. The \<^verbatim>\<open>contents\<close> of
  the request to the model stand for its payload, whose other parts are constants.
\<close>

definition handle_honeypot_request_on ::
  "(log_line \<Rightarrow> bool) \<Rightarrow> env \<Rightarrow> request \<Rightarrow> post_result \<Rightarrow> post_result \<Rightarrow> session_store
     \<Rightarrow> outcome \<times> session_store \<times> event list" where
  "handle_honeypot_request_on stdout e req gemini report store =
     (if \<not> authorized e req then (error_response ''Unauthorized'' 401, store, [])
      else case validate (body req) of
        Inl out \<Rightarrow> (out, store, [])
      | Inr (session_id, incoming_message) \<Rightarrow>
         (case resolve_history (body req) session_id store of
            None \<Rightarrow> (Unhandled, store, [])
          | Some (conversation_history, shared) \<Rightarrow>
             (case build_contents conversation_history incoming_message of
                None \<Rightarrow> (Unhandled, store, [])
              | Some contents \<Rightarrow>
                 (case call_gemini e gemini of
                    Inl (HTTPError r) \<Rightarrow>
                      (on_http_error stdout e r, store, [GeminiPost contents])
                  | Inl OtherException \<Rightarrow>
                      (on_exception stdout session_id, store, [GeminiPost contents])
                  | Inr model_output \<Rightarrow>
                     (case complete_turn stdout report session_id incoming_message
                             conversation_history shared model_output store of
                        (out, store', evs) \<Rightarrow> (out, store', GeminiPost contents # evs))))))"

text \<open>
  The view function on a standard output that takes every line. The statements that do
  not turn on what is printed are made of it.
\<close>

definition handle_honeypot_request ::
  "env \<Rightarrow> request \<Rightarrow> post_result \<Rightarrow> post_result \<Rightarrow> session_store
     \<Rightarrow> outcome \<times> session_store \<times> event list" where
  "handle_honeypot_request e req gemini report store =
     handle_honeypot_request_on every_line e req gemini report store"


section \<open>Serving requests one after the other\<close>

text \<open>
  A turn is a request together with what its two outbound calls meet. The server
  handles the turns of a list in order, each on the store the previous one left.
\<close>

type_synonym turn = "request \<times> post_result \<times> post_result"

fun run_turns :: "env \<Rightarrow> turn list \<Rightarrow> session_store \<Rightarrow> outcome list \<times> session_store" where
  "run_turns e [] store = ([], store)"
| "run_turns e (t # ts) store =
     (case handle_honeypot_request e (fst t) (fst (snd t)) (snd (snd t)) store of
        (out, store', evs) \<Rightarrow>
          (case run_turns e ts store' of
             (outs, store'') \<Rightarrow> (out # outs, store'')))"

section \<open>Reading results\<close>

text \<open>A turn succeeded when the view function returned with code 200 (line 190).\<close>

fun is_success :: "outcome \<Rightarrow> bool" where
  "is_success (Returned b code) = (code = 200)"
| "is_success Unhandled = False"


text \<open>A member of the JSON body the caller receives, and the names of all its members.\<close>

fun response_field :: "outcome \<Rightarrow> string \<Rightarrow> json option" where
  "response_field (Returned b code) f = py_item b f"
| "response_field Unhandled f = None"


text \<open>The artifacts of one category in the record stored for a session.\<close>

definition stored_artifacts :: "session_store \<Rightarrow> skey \<Rightarrow> string \<Rightarrow> json set" where
  "stored_artifacts store k category =
     (case store k of
        None \<Rightarrow> {}
      | Some s \<Rightarrow>
         (case py_get (intelligence s) category (JArr []) of
            Some (JArr xs) \<Rightarrow> set xs
          | _ \<Rightarrow> {}))"

text \<open>The turns stored for a session; \<open>None\<close> when the stored history is not a list.\<close>

definition stored_history :: "session_store \<Rightarrow> skey \<Rightarrow> json list option" where
  "stored_history store k =
     (case store k of
        None \<Rightarrow> Some []
      | Some s \<Rightarrow> (case history s of JArr xs \<Rightarrow> Some xs | _ \<Rightarrow> None))"

text \<open>
  What one exchange adds to a transcript: the message of the request as it came, then
  a turn of sender \<open>agent\<close> whose text is the reply that was returned to the caller and
  whose timestamp is \<open>N/A\<close>.
\<close>

definition exchange :: "turn \<times> outcome \<Rightarrow> json list" where
  "exchange p =
     (case (py_item (body (fst (fst p))) ''message'', response_field (snd p) ''agentReply'') of
        (Some m, Some r) \<Rightarrow>
          [m, JObj [(''sender'', JStr ''agent''), (''text'', r), (''timestamp'', JStr ''N/A'')]]
      | _ \<Rightarrow> [])"

section \<open>Concrete requests and replies\<close>

text \<open>
  A few texts the model can send back, with what \<^verbatim>\<open>json.loads\<close> makes of them.
  \<open>quoted s\<close> is \<open>s\<close> between double quotes, so \<open>txt_over\<close> is the text
  \<^verbatim>\<open>{ "isConversationOver": true }\<close> without its blanks around the braces.
\<close>

definition quoted :: "string \<Rightarrow> string" where
  "quoted s = CHR 0x22 # s @ [CHR 0x22]"

definition txt_upi :: string where
  "txt_upi = ''{'' @ quoted ''extractedIntelligence'' @ '': {'' @ quoted ''upiIds'' @ '': [''
               @ quoted ''a@upi'' @ '']}}''"

definition txt_over :: string where
  "txt_over = ''{'' @ quoted ''isConversationOver'' @ '': true}''"

definition txt_hi :: string where
  "txt_hi = ''{'' @ quoted ''agentResponseText'' @ '': '' @ quoted ''hi'' @ ''}''"

definition ex_loads :: "string \<Rightarrow> json option" where
  "ex_loads s =
     (if s = ''{}'' then Some (JObj [])
      else if s = ''5'' then Some (JNum 5)
      else if s = txt_upi then
        Some (JObj [(''extractedIntelligence'', JObj [(''upiIds'', JArr [JStr ''a@upi''])])])
      else if s = txt_over then Some (JObj [(''isConversationOver'', JBool True)])
      else if s = txt_hi then Some (JObj [(''agentResponseText'', JStr ''hi'')])
      else None)"

definition ex_env :: env where
  "ex_env = \<lparr>YOUR_API_KEY = ''secret'',
             json_loads = ex_loads,
             py_str = (\<lambda>v. case v of JStr s \<Rightarrow> s | _ \<Rightarrow> ''?'')\<rparr>"

text \<open>A 200 reply of the model whose embedded text is \<open>s\<close>.\<close>

definition ok_reply :: "string \<Rightarrow> post_result" where
  "ok_reply s =
     Response \<lparr>status_code = 200,
               json_body = Some (JObj [(''candidates'',
                 JArr [JObj [(''content'', JObj [(''parts'', JArr [JObj [(''text'', JStr s)]])])]])]),
               body_text = []\<rparr>"

text \<open>A 503 reply whose body is not JSON.\<close>

definition busy_reply :: post_result where
  "busy_reply = Response \<lparr>status_code = 503, json_body = None, body_text = ''busy''\<rparr>"

text \<open>A request of session \<open>s1\<close> carrying the message \<open>hello\<close> and no history.\<close>

definition ex_req :: request where
  "ex_req = \<lparr>x_api_key = Some ''secret'',
             body = JObj [(''sessionId'', JStr ''s1''),
                          (''message'', JObj [(''sender'', JStr ''scammer''), (''text'', JStr ''hello'')])]\<rparr>"

definition ex_msg :: json where
  "ex_msg = JObj [(''sender'', JStr ''scammer''), (''text'', JStr ''hello'')]"

text \<open>A store in which session \<open>s1\<close> is one exchange old and has one artifact.\<close>

definition ex_store :: session_store where
  "ex_store = Map.empty(KStr ''s1'' \<mapsto>
     \<lparr>history = JArr [ex_msg, agent_turn JNull],
      intelligence = JObj [(''upiIds'', JArr [JStr ''a@upi''])],
      agent_notes = JStr []\<rparr>)"

text \<open>The five categories the schema sent to the model names (lines 47-51).\<close>

definition categories :: "string list" where
  "categories = [''bankAccounts'', ''upiIds'', ''phishingLinks'', ''phoneNumbers'',
                 ''suspiciousKeywords'']"


text \<open>What the model is sent for \<open>ex_req\<close> when no history is resolved.\<close>

definition ex_contents :: json where
  "ex_contents = JArr [JObj [(''role'', JStr ''user''),
                             (''parts'', JArr [JObj [(''text'', JStr ''hello'')]])]]"


text \<open>
  Two bodies for session \<open>s1\<close>: one with an empty \<open>conversationHistory\<close>, one with a
  history of its own.
\<close>

definition ex_body_empty_history :: "(string \<times> json) list" where
  "ex_body_empty_history =
     [(''sessionId'', JStr ''s1''), (''message'', ex_msg), (''conversationHistory'', JArr [])]"

definition ex_body_own_history :: "(string \<times> json) list" where
  "ex_body_own_history =
     [(''sessionId'', JStr ''s1''), (''message'', ex_msg), (''conversationHistory'', JArr [ex_msg])]"

text \<open>A request with the right key whose body is the JSON number 5.\<close>

definition ex_req_number :: request where
  "ex_req_number = \<lparr>x_api_key = Some ''secret'', body = JNum 5\<rparr>"

text \<open>The store after one exchange of session \<open>s1\<close> in which the agent said \<open>hi\<close>.\<close>

definition ex_store_hi :: session_store where
  "ex_store_hi = Map.empty(KStr ''s1'' \<mapsto>
     \<lparr>history = JArr [ex_msg, agent_turn (JStr ''hi'')],
      intelligence = JObj [],
      agent_notes = JStr []\<rparr>)"


text \<open>
  A reply with status 302, which is neither a success nor an error status, whose body
  is the well-formed envelope of \<open>txt_hi\<close>.
\<close>

definition redirect_reply :: post_result where
  "redirect_reply =
     Response \<lparr>status_code = 302,
               json_body = Some (JObj [(''candidates'',
                 JArr [JObj [(''content'', JObj [(''parts'', JArr [JObj [(''text'', JStr txt_hi)]])])]])]),
               body_text = []\<rparr>"

text \<open>
  The session id that the JSON text \<^verbatim>\<open>"\ud800"\<close> denotes: a string of one code point, a
  lone surrogate, written here by the three bytes that stand for it. \<^verbatim>\<open>json.loads\<close>
  accepts it; a standard output in UTF-8 cannot encode it, so a \<^verbatim>\<open>print\<close> that formats
  this session id raises a \<^verbatim>\<open>UnicodeEncodeError\<close>. \<open>utf8_stdout\<close> takes every line but
  those; \<open>ex_req_surrogate\<close> is a first request of that session.
\<close>

definition lone_surrogate :: string where
  "lone_surrogate = [CHR 0xED, CHR 0xA0, CHR 0x80]"

definition utf8_stdout :: "log_line \<Rightarrow> bool" where
  "utf8_stdout l =
     (case l of
        CallbackSentLine session_id status \<Rightarrow> session_id \<noteq> JStr lone_surrogate
      | CallbackFailedLine session_id \<Rightarrow> session_id \<noteq> JStr lone_surrogate
      | ProcessingErrorLine session_id \<Rightarrow> session_id \<noteq> JStr lone_surrogate
      | CallbackErrorLine t \<Rightarrow> True
      | HttpErrorLine r \<Rightarrow> True
      | ErrorMessageLine m \<Rightarrow> True)"

definition ex_req_surrogate :: request where
  "ex_req_surrogate =
     \<lparr>x_api_key = Some ''secret'',
      body = JObj [(''sessionId'', JStr lone_surrogate), (''message'', ex_msg)]\<rparr>"

section \<open>General facts about the handler\<close>

lemma dict_get_absent: "map_of kvs k = None \<Longrightarrow> dict_get kvs k d = d"
  by (simp add: dict_get_def)

lemma dict_get_present: "map_of kvs k = Some v \<Longrightarrow> dict_get kvs k d = v"
  by (simp add: dict_get_def)

lemma py_item_Some: "py_item j k = Some v \<Longrightarrow> \<exists>kvs. j = JObj kvs \<and> map_of kvs k = Some v"
  by (cases j) auto

lemma py_get_Some: "py_get j k d = Some v \<Longrightarrow> \<exists>kvs. j = JObj kvs \<and> v = dict_get kvs k d"
  by (cases j) auto

lemma success_basics:
  "\<not> is_success internal_error"
  "\<not> is_success (error_response m 401)"
  "\<not> is_success (error_response m 400)"
  "\<not> is_success (error_response m 502)"
  "is_success (success_response a b c d f)"
  by (simp_all add: internal_error_def error_response_def success_response_def)

lemma on_http_error_not_success: "\<not> is_success (on_http_error every_line e r)"
  by (auto simp: on_http_error_def error_message_def every_line_def error_response_def split: option.splits bool.splits)

lemma validate_Inl_not_success: "validate data = Inl out \<Longrightarrow> \<not> is_success out"
  by (auto simp: validate_def error_response_def split: if_splits option.splits bool.splits)

lemma validate_Inr:
  "validate data = Inr (sid, msg) \<Longrightarrow>
     py_item data ''sessionId'' = Some sid \<and> py_item data ''message'' = Some msg"
  by (auto simp: validate_def split: if_splits option.splits bool.splits)

lemma validate_object:
  "map_of kvs ''sessionId'' = Some sid \<Longrightarrow> map_of kvs ''message'' = Some msg \<Longrightarrow>
     validate (JObj kvs) = Inr (sid, msg)"
  by (auto simp: validate_def)

lemma resolve_history_shared:
  "resolve_history data sid store = Some (ch, sh) \<Longrightarrow> sh = None \<or> sh = hash_key sid"
  by (auto simp: resolve_history_def split: option.splits if_splits)

text \<open>
  Lines 156-190 end in the success response only for a model result that is an object,
  a history that is a list and a hashable session id; the store then holds the new
  session, or nothing under the key when the turn was the last one.
\<close>

lemma complete_turn_result:
  assumes ct: "complete_turn every_line report sid msg ch sh mo store = (out, store', evs)"
      and al: "sh = None \<or> sh = hash_key sid"
      and ok: "is_success out"
  shows "\<exists>kvs xs k. mo = JObj kvs \<and> ch = JArr xs \<and> hash_key sid = Some k \<and>
          out = success_response (dict_get kvs ''agentResponseText'' JNull)
                  (dict_get kvs ''isConversationOver'' (JBool False)) sid
                  (dict_get kvs ''extractedIntelligence'' (JObj []))
                  (dict_get kvs ''agentNotes'' (JStr [])) \<and>
          store' = (if truthy (dict_get kvs ''isConversationOver'' (JBool False))
                    then store(k := None)
                    else store(k \<mapsto>
                      \<lparr>history = JArr (xs @ [msg, agent_turn (dict_get kvs ''agentResponseText'' JNull)]),
                       intelligence = dict_get kvs ''extractedIntelligence'' (JObj []),
                       agent_notes = dict_get kvs ''agentNotes'' (JStr [])\<rparr>))"
proof -
  from ct ok obtain kvs where mo: "mo = JObj kvs"
    by (cases mo) (auto simp: complete_turn_def on_exception_def every_line_def success_basics)
  from ct ok mo obtain xs where ch: "ch = JArr xs"
    by (cases ch) (auto simp: complete_turn_def on_exception_def every_line_def append_history_def success_basics)
  from ct ok mo ch obtain k where k: "hash_key sid = Some k"
    by (cases "hash_key sid")
       (auto simp: complete_turn_def on_exception_def every_line_def append_history_def success_basics split: option.splits)
  from al k have al': "sh = None \<or> sh = Some k" by simp
  show ?thesis
    using ct al' unfolding mo ch
    by (auto simp: complete_turn_def on_exception_def every_line_def append_history_def k send_final_report_def Let_def
          success_basics split: option.splits post_result.splits if_splits)
qed



text \<open>What a successful turn went through, and what it leaves.\<close>

lemma handle_success:
  assumes h: "handle_honeypot_request e req gemini report store = (out, store', evs)"
      and ok: "is_success out"
  shows "\<exists>sid msg sh xs contents kvs k.
          authorized e req \<and>
          validate (body req) = Inr (sid, msg) \<and>
          resolve_history (body req) sid store = Some (JArr xs, sh) \<and>
          build_contents (JArr xs) msg = Some contents \<and>
          call_gemini e gemini = Inr (JObj kvs) \<and>
          hash_key sid = Some k \<and>
          out = success_response (dict_get kvs ''agentResponseText'' JNull)
                  (dict_get kvs ''isConversationOver'' (JBool False)) sid
                  (dict_get kvs ''extractedIntelligence'' (JObj []))
                  (dict_get kvs ''agentNotes'' (JStr [])) \<and>
          store' = (if truthy (dict_get kvs ''isConversationOver'' (JBool False))
                    then store(k := None)
                    else store(k \<mapsto>
                      \<lparr>history = JArr (xs @ [msg, agent_turn (dict_get kvs ''agentResponseText'' JNull)]),
                       intelligence = dict_get kvs ''extractedIntelligence'' (JObj []),
                       agent_notes = dict_get kvs ''agentNotes'' (JStr [])\<rparr>))"
proof -
  from h ok have au: "authorized e req"
    by (auto simp: handle_honeypot_request_def handle_honeypot_request_on_def on_exception_def every_line_def success_basics split: if_splits)
  obtain sid msg where v: "validate (body req) = Inr (sid, msg)"
  proof (cases "validate (body req)")
    case (Inl o')
    with h au have "out = o'" by (simp add: handle_honeypot_request_def handle_honeypot_request_on_def on_exception_def every_line_def)
    with Inl ok validate_Inl_not_success show ?thesis by blast
  next
    case (Inr p)
    with that show ?thesis by (cases p) auto
  qed
  from h ok au v obtain ch sh where r: "resolve_history (body req) sid store = Some (ch, sh)"
    by (auto simp: handle_honeypot_request_def handle_honeypot_request_on_def on_exception_def every_line_def split: option.splits)
  from h ok au v r obtain contents where b: "build_contents ch msg = Some contents"
    by (auto simp: handle_honeypot_request_def handle_honeypot_request_on_def on_exception_def every_line_def split: option.splits)
  from h ok au v r b obtain mo where g: "call_gemini e gemini = Inr mo"
    by (auto simp: handle_honeypot_request_def handle_honeypot_request_on_def on_exception_def every_line_def on_http_error_not_success success_basics
          split: sum.splits failure.splits)
  from h au v r b g obtain evs' where
    ct: "complete_turn every_line report sid msg ch sh mo store = (out, store', evs')"
    by (auto simp: handle_honeypot_request_def handle_honeypot_request_on_def on_exception_def every_line_def split: prod.splits)
  from complete_turn_result [OF ct resolve_history_shared [OF r] ok] au v r b g
  show ?thesis by blast
qed


lemma validate_Inl_shape:
  "validate data = Inl out \<Longrightarrow> out = Unhandled \<or> out = error_response ''Invalid request body'' 400"
  by (auto simp: validate_def split: if_splits option.splits bool.splits)









lemma send_final_report_returns:
  "fst (send_final_report every_line report sid n intel notes) = Inr ()"
  by (cases report) (simp_all add: send_final_report_def every_line_def)

lemma complete_turn_report:
  assumes "complete_turn every_line report sid msg ch sh mo store = (out, store', evs)"
      and "ReportPost p \<in> set evs"
  shows "is_success out \<and>
         (\<exists>kvs. mo = JObj kvs \<and> truthy (dict_get kvs ''isConversationOver'' (JBool False)))"
  using assms
  by (cases mo)
     (auto simp: complete_turn_def on_exception_def every_line_def Let_def send_final_report_def success_basics
        split: option.splits if_splits prod.splits post_result.splits)

lemma complete_turn_any_report:
  "fst (complete_turn every_line report' sid msg ch sh mo store) = fst (complete_turn every_line report sid msg ch sh mo store)
   \<and> fst (snd (complete_turn every_line report' sid msg ch sh mo store))
       = fst (snd (complete_turn every_line report sid msg ch sh mo store))"
  by (cases report; cases report')
     (auto simp: complete_turn_def on_exception_def every_line_def Let_def send_final_report_def split: option.splits)

lemma handle_any_report:
  "fst (handle_honeypot_request e req gemini report' store)
     = fst (handle_honeypot_request e req gemini report store)
   \<and> fst (snd (handle_honeypot_request e req gemini report' store))
     = fst (snd (handle_honeypot_request e req gemini report store))"
  using complete_turn_any_report [of report' _ _ _ _ _ store report]
  by (auto simp: handle_honeypot_request_def handle_honeypot_request_on_def on_exception_def every_line_def
        split: sum.splits option.splits failure.splits prod.splits)
     (metis fst_conv snd_conv)+

lemma handle_report:
  assumes h: "handle_honeypot_request e req gemini report store = (out, store', evs)"
      and p: "ReportPost payload \<in> set evs"
  shows "is_success out \<and>
         (\<exists>kvs. call_gemini e gemini = Inr (JObj kvs) \<and>
                truthy (dict_get kvs ''isConversationOver'' (JBool False)))"
  using h p
  by (auto simp: handle_honeypot_request_def handle_honeypot_request_on_def on_exception_def every_line_def
        split: if_splits sum.splits option.splits failure.splits prod.splits
        dest: complete_turn_report)

lemma complete_turn_report_logged:
  assumes "complete_turn every_line report sid msg ch sh mo store = (out, store', evs)"
      and "ReportPost p \<in> set evs"
  shows "(report = RequestException \<longrightarrow> CallbackFailed \<in> set evs) \<and>
         (\<forall>r. report = Response r \<and> status_code r \<noteq> 200 \<longrightarrow> CallbackError (body_text r) \<in> set evs)"
  using assms
  by (cases mo)
     (auto simp: complete_turn_def on_exception_def every_line_def Let_def send_final_report_def
        split: option.splits if_splits prod.splits post_result.splits)

lemma handle_report_logged:
  assumes h: "handle_honeypot_request e req gemini report store = (out, store', evs)"
      and p: "ReportPost payload \<in> set evs"
  shows "(report = RequestException \<longrightarrow> CallbackFailed \<in> set evs) \<and>
         (\<forall>r. report = Response r \<and> status_code r \<noteq> 200 \<longrightarrow> CallbackError (body_text r) \<in> set evs)"
  using h p
  by (auto simp: handle_honeypot_request_def handle_honeypot_request_on_def on_exception_def every_line_def
        split: if_splits sum.splits option.splits failure.splits prod.splits
        dest: complete_turn_report_logged)

lemma map_of_filter_other:
  "k \<noteq> k0 \<Longrightarrow> map_of (filter (\<lambda>kv. fst kv \<noteq> k0) kvs) k = map_of kvs k"
  by (induction kvs) auto

lemma map_of_filter_self: "map_of (filter (\<lambda>kv. fst kv \<noteq> k0) kvs) k0 = None"
  by (induction kvs) auto

lemma filter_empty_no_key:
  "filter (\<lambda>kv. fst kv \<noteq> k0) kvs = [] \<Longrightarrow> k \<noteq> k0 \<Longrightarrow> map_of kvs k = None"
  by (induction kvs) (auto split: if_splits)

lemma resolve_history_empty_or_absent:
  assumes "map_of kvs ''conversationHistory'' = Some (JArr []) \<or> map_of kvs ''conversationHistory'' = None"
  shows "resolve_history (JObj kvs) sid store =
           (case hash_key sid of
              None \<Rightarrow> None
            | Some k \<Rightarrow> (case store k of
                           None \<Rightarrow> Some (JArr [], None)
                         | Some s \<Rightarrow> Some (history s, Some k)))"
  using assms by (auto simp: resolve_history_def dict_get_def split: option.splits)

lemma validate_without_history:
  assumes "map_of kvs ''conversationHistory'' = Some v"
  shows "validate (JObj (filter (\<lambda>kv. fst kv \<noteq> ''conversationHistory'') kvs)) = validate (JObj kvs)"
proof (cases "filter (\<lambda>kv. fst kv \<noteq> ''conversationHistory'') kvs = []")
  case True
  from filter_empty_no_key [OF True, of "''sessionId''"] have "map_of kvs ''sessionId'' = None"
    by simp
  with True assms show ?thesis by (auto simp: validate_def)
next
  case False
  then have "kvs \<noteq> []" by auto
  with False show ?thesis
    by (auto simp: validate_def map_of_filter_other split: option.splits bool.splits)
qed

lemma handle_appends_exchange:
  assumes h: "handle_honeypot_request e (fst t) (fst (snd t)) (snd (snd t)) store = (out, store', evs)"
      and ok: "is_success out"
      and flag: "response_field out ''conversationIsOver'' = Some v" "\<not> truthy v"
      and sid: "py_item (body (fst t)) ''sessionId'' = Some sid"
      and nohist: "py_item (body (fst t)) ''conversationHistory'' = None"
      and key: "hash_key sid = Some k"
      and pre: "stored_history store k = Some pre"
  shows "stored_history store' k = Some (pre @ exchange (t, out)) \<and> length (exchange (t, out)) = 2
         \<and> store' k \<noteq> None"
proof -
  from handle_success [OF h ok] obtain sid' msg sh xs kvs k' where
    v: "validate (body (fst t)) = Inr (sid', msg)" and
    r: "resolve_history (body (fst t)) sid' store = Some (JArr xs, sh)" and
    k': "hash_key sid' = Some k'" and
    out: "out = success_response (dict_get kvs ''agentResponseText'' JNull)
                  (dict_get kvs ''isConversationOver'' (JBool False)) sid'
                  (dict_get kvs ''extractedIntelligence'' (JObj []))
                  (dict_get kvs ''agentNotes'' (JStr []))" and
    st: "store' = (if truthy (dict_get kvs ''isConversationOver'' (JBool False))
                    then store(k' := None)
                    else store(k' \<mapsto>
                      \<lparr>history = JArr (xs @ [msg, agent_turn (dict_get kvs ''agentResponseText'' JNull)]),
                       intelligence = dict_get kvs ''extractedIntelligence'' (JObj []),
                       agent_notes = dict_get kvs ''agentNotes'' (JStr [])\<rparr>))"
    by blast
  from validate_Inr [OF v] sid have s: "sid' = sid" and m: "py_item (body (fst t)) ''message'' = Some msg"
    by simp_all
  from k' key s have kk: "k' = k" by simp
  from out flag have nf: "\<not> truthy (dict_get kvs ''isConversationOver'' (JBool False))"
    by (simp add: success_response_def)
  from py_item_Some [OF m] obtain d where d: "body (fst t) = JObj d" by blast
  with nohist have "map_of d ''conversationHistory'' = None" by simp
  from resolve_history_empty_or_absent [of d sid store] this r key d s
  have xs: "(case store k of None \<Rightarrow> JArr [] | Some s \<Rightarrow> history s) = JArr xs"
    by (auto split: option.splits)
  with pre have "pre = xs" by (auto simp: stored_history_def split: option.splits json.splits)
  moreover from out have "response_field out ''agentReply'' = Some (dict_get kvs ''agentResponseText'' JNull)"
    by (simp add: success_response_def)
  with m have "exchange (t, out) = [msg, agent_turn (dict_get kvs ''agentResponseText'' JNull)]"
    by (simp add: exchange_def agent_turn_def)
  ultimately show ?thesis using st nf kk by (simp add: stored_history_def)
qed

lemma run_turns_history:
  assumes "run_turns e ts store = (outs, store')"
      and "hash_key sid = Some k"
      and "\<forall>t \<in> set ts. py_item (body (fst t)) ''sessionId'' = Some sid \<and>
                        py_item (body (fst t)) ''conversationHistory'' = None"
      and "\<forall>out \<in> set outs. is_success out \<and>
              (\<exists>v. response_field out ''conversationIsOver'' = Some v \<and> \<not> truthy v)"
      and "stored_history store k = Some pre"
  shows "stored_history store' k = Some (pre @ concat (map exchange (zip ts outs)))
         \<and> length (concat (map exchange (zip ts outs))) = 2 * length ts
         \<and> (ts \<noteq> [] \<longrightarrow> store' k \<noteq> None)"
  using assms
proof (induction ts arbitrary: store outs pre)
  case Nil
  then show ?case by simp
next
  case (Cons t ts)
  obtain out s1 evs where h: "handle_honeypot_request e (fst t) (fst (snd t)) (snd (snd t)) store
                               = (out, s1, evs)"
    by (cases "handle_honeypot_request e (fst t) (fst (snd t)) (snd (snd t)) store") auto
  obtain outs' s2 where r: "run_turns e ts s1 = (outs', s2)"
    by (cases "run_turns e ts s1") auto
  from Cons.prems(1) h r have o: "outs = out # outs'" and "store' = s2" by simp_all
  with r have r': "run_turns e ts s1 = (outs', store')" by simp
  from Cons.prems(4) o obtain v where ok: "is_success out" and
    f: "response_field out ''conversationIsOver'' = Some v" "\<not> truthy v"
    by auto
  from Cons.prems(3) have t: "py_item (body (fst t)) ''sessionId'' = Some sid"
    "py_item (body (fst t)) ''conversationHistory'' = None"
    by simp_all
  from handle_appends_exchange [OF h ok f t Cons.prems(2) Cons.prems(5)]
  have s1: "stored_history s1 k = Some (pre @ exchange (t, out))"
    and l: "length (exchange (t, out)) = 2" and ne: "s1 k \<noteq> None"
    by simp_all
  from Cons.prems(3) have rest: "\<forall>t \<in> set ts. py_item (body (fst t)) ''sessionId'' = Some sid \<and>
                        py_item (body (fst t)) ''conversationHistory'' = None"
    by simp
  from Cons.prems(4) o have rest': "\<forall>out \<in> set outs'. is_success out \<and>
              (\<exists>v. response_field out ''conversationIsOver'' = Some v \<and> \<not> truthy v)"
    by simp
  from Cons.IH [OF r' Cons.prems(2) rest rest' s1]
  have ih: "stored_history store' k = Some ((pre @ exchange (t, out)) @ concat (map exchange (zip ts outs')))"
    "length (concat (map exchange (zip ts outs'))) = 2 * length ts"
    "ts \<noteq> [] \<longrightarrow> store' k \<noteq> None"
    by simp_all
  have "store' k \<noteq> None"
  proof (cases ts)
    case Nil
    with r' ne show ?thesis by simp
  next
    case (Cons a list)
    with ih(3) show ?thesis by simp
  qed
  with ih l o show ?case by simp
qed

text \<open>
  The two exits at the boundary (lines 100-108) return before the store is read or the
  model is called, and a body that is empty or an object without one of the two members
  gets the 400 response.
\<close>

lemma unauthorized_exit:
  "\<not> authorized e req \<Longrightarrow>
     handle_honeypot_request e req gemini report store =
       (error_response ''Unauthorized'' 401, store, [])"
  by (simp add: handle_honeypot_request_def handle_honeypot_request_on_def on_exception_def every_line_def)

lemma authorized_iff:
  "authorized e req \<longleftrightarrow> x_api_key req = Some (YOUR_API_KEY e) \<and> YOUR_API_KEY e \<noteq> []"
  by (auto simp: authorized_def split: option.splits)

lemma invalid_exit:
  "authorized e req \<Longrightarrow> validate (body req) = Inl out \<Longrightarrow>
     handle_honeypot_request e req gemini report store = (out, store, [])"
  by (simp add: handle_honeypot_request_def handle_honeypot_request_on_def on_exception_def every_line_def)

lemma validate_object_missing:
  "map_of kvs ''sessionId'' = None \<or> map_of kvs ''message'' = None \<Longrightarrow>
     validate (JObj kvs) = Inl (error_response ''Invalid request body'' 400)"
  by (auto simp: validate_def split: bool.splits)

lemma validate_falsy:
  "\<not> truthy data \<Longrightarrow> validate data = Inl (error_response ''Invalid request body'' 400)"
  by (simp add: validate_def)

text \<open>A last turn posts a report that counts the resolved history and the two new turns.\<close>

lemma complete_turn_terminal_events:
  assumes "sh = None \<or> sh = Some k" and "hash_key sid = Some k"
      and "truthy (dict_get kvs ''isConversationOver'' (JBool False))"
  shows "ReportPost (report_payload sid (length xs + 2)
                       (dict_get kvs ''extractedIntelligence'' (JObj []))
                       (dict_get kvs ''agentNotes'' (JStr [])))
           \<in> set (snd (snd (complete_turn every_line report sid msg (JArr xs) sh (JObj kvs) store)))"
  using assms
  by (cases report)
     (auto simp: complete_turn_def on_exception_def every_line_def append_history_def send_final_report_def Let_def
        split: option.splits)

lemma handle_terminal_report:
  assumes h: "handle_honeypot_request e req gemini report store = (out, store', evs)"
      and ok: "is_success out"
      and flag: "response_field out ''conversationIsOver'' = Some v" "truthy v"
  shows "\<exists>sid xs sh intel notes.
           py_item (body req) ''sessionId'' = Some sid \<and>
           resolve_history (body req) sid store = Some (JArr xs, sh) \<and>
           ReportPost (report_payload sid (length xs + 2) intel notes) \<in> set evs"
proof -
  from handle_success [OF h ok] obtain sid msg sh xs contents kvs k where
    au: "authorized e req" and
    v: "validate (body req) = Inr (sid, msg)" and
    r: "resolve_history (body req) sid store = Some (JArr xs, sh)" and
    b: "build_contents (JArr xs) msg = Some contents" and
    g: "call_gemini e gemini = Inr (JObj kvs)" and
    k: "hash_key sid = Some k" and
    out: "out = success_response (dict_get kvs ''agentResponseText'' JNull)
                  (dict_get kvs ''isConversationOver'' (JBool False)) sid
                  (dict_get kvs ''extractedIntelligence'' (JObj []))
                  (dict_get kvs ''agentNotes'' (JStr []))"
    by blast
  from out flag have t: "truthy (dict_get kvs ''isConversationOver'' (JBool False))"
    by (simp add: success_response_def)
  from resolve_history_shared [OF r] k have sh: "sh = None \<or> sh = Some k" by simp
  from h au v r b g have "evs = GeminiPost contents #
          snd (snd (complete_turn every_line report sid msg (JArr xs) sh (JObj kvs) store))"
    by (auto simp: handle_honeypot_request_def handle_honeypot_request_on_def on_exception_def every_line_def split: prod.splits)
  with complete_turn_terminal_events [OF sh k t, of xs report msg store]
  have "ReportPost (report_payload sid (length xs + 2)
                       (dict_get kvs ''extractedIntelligence'' (JObj []))
                       (dict_get kvs ''agentNotes'' (JStr []))) \<in> set evs"
    by simp
  with validate_Inr [OF v] r show ?thesis by blast
qed


lemma run_turns_length: "run_turns e ts store = (outs, store') \<Longrightarrow> length outs = length ts"
proof (induction ts arbitrary: store outs)
  case Nil
  then show ?case by simp
next
  case (Cons t ts)
  obtain out s1 evs where h: "handle_honeypot_request e (fst t) (fst (snd t)) (snd (snd t)) store
                               = (out, s1, evs)"
    by (cases "handle_honeypot_request e (fst t) (fst (snd t)) (snd (snd t)) store") auto
  obtain outs' s2 where r: "run_turns e ts s1 = (outs', s2)"
    by (cases "run_turns e ts s1") auto
  from Cons.prems h r have "outs = out # outs'" and "store' = s2" by simp_all
  with Cons.IH [of s1 outs'] r show ?case by simp
qed

lemma resolved_is_stored:
  assumes "py_item data ''sessionId'' = Some sid"
      and "py_item data ''conversationHistory'' = None"
      and "hash_key sid = Some k"
      and "stored_history store k = Some pre"
      and "resolve_history data sid store = Some (JArr xs, sh)"
  shows "xs = pre"
proof -
  from py_item_Some [OF assms(1)] obtain d where d: "data = JObj d" by blast
  with assms(2) have "map_of d ''conversationHistory'' = None" by simp
  from resolve_history_empty_or_absent [of d sid store] this assms(3,5) d
  have "(case store k of None \<Rightarrow> JArr [] | Some s \<Rightarrow> history s) = JArr xs"
    by (auto split: option.splits)
  with assms(4) show ?thesis
    by (auto simp: stored_history_def split: option.splits json.splits)
qed

lemma exchange_of_success:
  assumes h: "handle_honeypot_request e (fst t) (fst (snd t)) (snd (snd t)) store = (out, store', evs)"
      and ok: "is_success out"
  shows "length (exchange (t, out)) = 2"
proof -
  from handle_success [OF h ok] obtain sid msg kvs where
    v: "validate (body (fst t)) = Inr (sid, msg)" and
    out: "out = success_response (dict_get kvs ''agentResponseText'' JNull)
                  (dict_get kvs ''isConversationOver'' (JBool False)) sid
                  (dict_get kvs ''extractedIntelligence'' (JObj []))
                  (dict_get kvs ''agentNotes'' (JStr []))"
    by blast
  from validate_Inr [OF v] out show ?thesis
    by (simp add: exchange_def success_response_def)
qed

text \<open>The two \<^verbatim>\<open>except\<close> clauses never give the success response.\<close>

lemma on_http_error_fails: "\<not> is_success (on_http_error stdout e r)"
  by (auto simp: on_http_error_def error_response_def split: option.splits)

lemma on_exception_fails: "\<not> is_success (on_exception stdout sid)"
  by (simp add: on_exception_def internal_error_def error_response_def)

lemma on_http_error_form:
  "on_http_error stdout e r = Unhandled \<or> (\<exists>m. on_http_error stdout e r = error_response m 502)"
  by (auto simp: on_http_error_def split: option.splits)

lemma on_exception_form:
  "on_exception stdout sid = Unhandled \<or>
   on_exception stdout sid = error_response ''Internal server error'' 500"
  by (simp add: on_exception_def internal_error_def)

text \<open>
  When the call to the model fails: the post raises, the status is an error status, the
  envelope is not JSON, the envelope has no string at the place of the text, or the text
  does not parse.
\<close>

lemma call_gemini_fails_iff:
  "(\<exists>f. call_gemini e gemini = Inl f) \<longleftrightarrow>
     (gemini = RequestException \<or>
      (\<exists>r. gemini = Response r \<and>
           ((400 \<le> status_code r \<and> status_code r < 600) \<or>
            json_body r = None \<or>
            (\<exists>d. json_body r = Some d \<and> (\<forall>s. model_output_text d \<noteq> Some (JStr s))) \<or>
            (\<exists>d s. json_body r = Some d \<and> model_output_text d = Some (JStr s) \<and>
                   json_loads e s = None))))"
  by (cases gemini) (auto simp: call_gemini_def split: option.splits json.splits)

text \<open>
  On a standard output that takes every line the fate of the report does not reach the
  caller: a turn that posted a report ends in the success response with a true
  \<open>conversationIsOver\<close>, the session is removed, and response and store are the same
  for any other fate of the report.
\<close>

lemma report_fate_on_every_line:
  assumes h: "handle_honeypot_request e req gemini report store = (out, store', evs)"
      and p: "ReportPost payload \<in> set evs"
  shows "fst (send_final_report every_line report session_id n intel notes) = Inr ()
       \<and> (report = RequestException \<longrightarrow> CallbackFailed \<in> set evs)
       \<and> (\<forall>r. report = Response r \<and> status_code r \<noteq> 200 \<longrightarrow>
              CallbackError (body_text r) \<in> set evs)
       \<and> is_success out
       \<and> (\<exists>v. response_field out ''conversationIsOver'' = Some v \<and> truthy v)
       \<and> (\<exists>sid k. py_item (body req) ''sessionId'' = Some sid \<and> hash_key sid = Some k \<and>
                   store' k = None)
       \<and> (\<forall>report'. fst (handle_honeypot_request e req gemini report' store) = out \<and>
                     fst (snd (handle_honeypot_request e req gemini report' store)) = store')"
proof -
  from handle_report [OF h p] obtain kvs0 where
    ok: "is_success out" and g0: "call_gemini e gemini = Inr (JObj kvs0)" and
    t0: "truthy (dict_get kvs0 ''isConversationOver'' (JBool False))"
    by blast
  from handle_success [OF h ok] obtain sid msg kvs k xs where
    v: "validate (body req) = Inr (sid, msg)" and
    g: "call_gemini e gemini = Inr (JObj kvs)" and
    k: "hash_key sid = Some k" and
    out: "out = success_response (dict_get kvs ''agentResponseText'' JNull)
                  (dict_get kvs ''isConversationOver'' (JBool False)) sid
                  (dict_get kvs ''extractedIntelligence'' (JObj []))
                  (dict_get kvs ''agentNotes'' (JStr []))" and
    st: "store' = (if truthy (dict_get kvs ''isConversationOver'' (JBool False))
                    then store(k := None)
                    else store(k \<mapsto>
                      \<lparr>history = JArr (xs @ [msg, agent_turn (dict_get kvs ''agentResponseText'' JNull)]),
                       intelligence = dict_get kvs ''extractedIntelligence'' (JObj []),
                       agent_notes = dict_get kvs ''agentNotes'' (JStr [])\<rparr>))"
    by blast
  from g g0 have kvs: "kvs0 = kvs" by simp
  from out t0 kvs have flag: "\<exists>v. response_field out ''conversationIsOver'' = Some v \<and> truthy v"
    by (simp add: success_response_def)
  from st t0 kvs have "store' k = None" by simp
  with validate_Inr [OF v] k have gone:
    "\<exists>sid k. py_item (body req) ''sessionId'' = Some sid \<and> hash_key sid = Some k \<and> store' k = None"
    by blast
  from handle_any_report [of e req gemini _ store report] h
  have same: "\<forall>report'. fst (handle_honeypot_request e req gemini report' store) = out \<and>
                     fst (snd (handle_honeypot_request e req gemini report' store)) = store'"
    by simp
  from send_final_report_returns handle_report_logged [OF h p] ok flag gone same
  show ?thesis by blast
qed

subsection \<open>The handler on the concrete requests\<close>

lemmas ex_defs = handle_honeypot_request_def handle_honeypot_request_on_def every_line_def
  authorized_def ex_env_def ex_req_def validate_def
  resolve_history_def build_contents_def content_entry_def call_gemini_def ok_reply_def
  model_output_text_def ex_loads_def txt_upi_def txt_over_def txt_hi_def quoted_def
  complete_turn_def on_exception_def append_history_def send_final_report_def dict_get_def
  ex_store_def ex_msg_def agent_turn_def success_response_def internal_error_def
  error_response_def report_payload_def busy_reply_def on_http_error_def error_message_def

lemma ex_first_turn:
  "handle_honeypot_request ex_env ex_req (ok_reply txt_upi) RequestException Map.empty =
     (success_response JNull (JBool False) (JStr ''s1'')
        (JObj [(''upiIds'', JArr [JStr ''a@upi''])]) (JStr []),
      ex_store,
      [GeminiPost (JArr [JObj [(''role'', JStr ''user''),
                               (''parts'', JArr [JObj [(''text'', JStr ''hello'')]])]])])"
  by (simp add: ex_defs)

lemma ex_second_turn:
  "handle_honeypot_request ex_env ex_req (ok_reply ''{}'') RequestException ex_store =
     (success_response JNull (JBool False) (JStr ''s1'') (JObj []) (JStr []),
      Map.empty(KStr ''s1'' \<mapsto>
        \<lparr>history = JArr [ex_msg, agent_turn JNull, ex_msg, agent_turn JNull],
         intelligence = JObj [],
         agent_notes = JStr []\<rparr>),
      [GeminiPost (JArr [JObj [(''role'', JStr ''user''),
                               (''parts'', JArr [JObj [(''text'', JStr ''hello'')]])],
                         JObj [(''role'', JStr ''model''),
                               (''parts'', JArr [JObj [(''text'', JNull)]])],
                         JObj [(''role'', JStr ''user''),
                               (''parts'', JArr [JObj [(''text'', JStr ''hello'')]])]])])"
  by (simp add: ex_defs)


lemma ex_gemini_empty: "call_gemini ex_env (ok_reply ''{}'') = Inr (JObj [])"
  by (simp add: call_gemini_def ok_reply_def model_output_text_def ex_env_def ex_loads_def)






lemma ex_hi_run:
  "run_turns ex_env [(ex_req, ok_reply txt_hi, RequestException)] Map.empty =
     ([success_response (JStr ''hi'') (JBool False) (JStr ''s1'') (JObj []) (JStr [])],
      ex_store_hi)"
  by (simp add: ex_defs ex_store_hi_def)

lemma ex_hi_then_over:
  "handle_honeypot_request ex_env ex_req (ok_reply txt_over) RequestException ex_store_hi =
     (success_response JNull (JBool True) (JStr ''s1'') (JObj []) (JStr []),
      Map.empty,
      [GeminiPost (JArr [JObj [(''role'', JStr ''user''),
                               (''parts'', JArr [JObj [(''text'', JStr ''hello'')]])],
                         JObj [(''role'', JStr ''model''),
                               (''parts'', JArr [JObj [(''text'', JStr ''hi'')]])],
                         JObj [(''role'', JStr ''user''),
                               (''parts'', JArr [JObj [(''text'', JStr ''hello'')]])]]),
       ReportPost (JObj [(''sessionId'', JStr ''s1''),
                         (''scamDetected'', JBool True),
                         (''totalMessagesExchanged'', JNum 4),
                         (''extractedIntelligence'', JObj []),
                         (''agentNotes'', JStr [])]),
       CallbackFailed])"
  by (simp add: ex_defs ex_store_hi_def)

lemma ex_hi_then_empty:
  "handle_honeypot_request ex_env ex_req (ok_reply ''{}'') RequestException ex_store_hi =
     (success_response JNull (JBool False) (JStr ''s1'') (JObj []) (JStr []),
      Map.empty(KStr ''s1'' \<mapsto>
        \<lparr>history = JArr [ex_msg, agent_turn (JStr ''hi''), ex_msg, agent_turn JNull],
         intelligence = JObj [],
         agent_notes = JStr []\<rparr>),
      [GeminiPost (JArr [JObj [(''role'', JStr ''user''),
                               (''parts'', JArr [JObj [(''text'', JStr ''hello'')]])],
                         JObj [(''role'', JStr ''model''),
                               (''parts'', JArr [JObj [(''text'', JStr ''hi'')]])],
                         JObj [(''role'', JStr ''user''),
                               (''parts'', JArr [JObj [(''text'', JStr ''hello'')]])]])])"
  by (simp add: ex_defs ex_store_hi_def)


lemma ex_redirect_turn:
  "handle_honeypot_request ex_env ex_req redirect_reply RequestException ex_store =
     (success_response (JStr ''hi'') (JBool False) (JStr ''s1'') (JObj []) (JStr []),
      Map.empty(KStr ''s1'' \<mapsto>
        \<lparr>history = JArr [ex_msg, agent_turn JNull, ex_msg, agent_turn (JStr ''hi'')],
         intelligence = JObj [],
         agent_notes = JStr []\<rparr>),
      [GeminiPost (JArr [JObj [(''role'', JStr ''user''),
                               (''parts'', JArr [JObj [(''text'', JStr ''hello'')]])],
                         JObj [(''role'', JStr ''model''),
                               (''parts'', JArr [JObj [(''text'', JNull)]])],
                         JObj [(''role'', JStr ''user''),
                               (''parts'', JArr [JObj [(''text'', JStr ''hello'')]])]])])"
  by (simp add: ex_defs redirect_reply_def)

lemma ex_over_run:
  "run_turns ex_env [(ex_req, ok_reply txt_over, RequestException)] Map.empty =
     ([success_response JNull (JBool True) (JStr ''s1'') (JObj []) (JStr [])], Map.empty)"
  by (simp add: ex_defs)

section \<open>Claims\<close>

text \<open>
  C1. As stated the claim fails: the handler never merges. Session \<open>s1\<close> holds the
  artifact \<open>a@upi\<close> after its first turn; the model's result of the second turn has no
  \<open>extractedIntelligence\<close>, and after that turn the stored record has lost the artifact.
\<close>

theorem accumulation_counterexample:
  "\<not> stored_artifacts
        (snd (run_turns ex_env [(ex_req, ok_reply txt_upi, RequestException)] Map.empty))
        (KStr ''s1'') ''upiIds''
      \<subseteq> stored_artifacts
        (snd (run_turns ex_env [(ex_req, ok_reply txt_upi, RequestException),
                                (ex_req, ok_reply ''{}'', RequestException)] Map.empty))
        (KStr ''s1'') ''upiIds''"
proof -
  have r1: "snd (run_turns ex_env [(ex_req, ok_reply txt_upi, RequestException)] Map.empty)
              = ex_store"
    by (simp add: ex_first_turn)
  have r2: "snd (run_turns ex_env [(ex_req, ok_reply txt_upi, RequestException),
                                   (ex_req, ok_reply ''{}'', RequestException)] Map.empty) =
      Map.empty(KStr ''s1'' \<mapsto>
        \<lparr>history = JArr [ex_msg, agent_turn JNull, ex_msg, agent_turn JNull],
         intelligence = JObj [],
         agent_notes = JStr []\<rparr>)"
    by (simp add: ex_first_turn ex_second_turn)
  show ?thesis
    unfolding r1 r2 by (simp add: stored_artifacts_def ex_store_def dict_get_def)
qed

text \<open>
  C1, amended. After every successful turn the \<open>extractedIntelligence\<close> returned to the
  caller is exactly the \<open>extractedIntelligence\<close> of this turn's model result (the empty
  mapping when the result has none), and when the turn is not the last one the record
  stored for the session is that same value, whatever was stored before; after a last
  turn nothing is stored under the session's key.
\<close>

theorem intelligence_is_latest_delta:
  assumes "handle_honeypot_request e req gemini report store = (out, store', evs)"
      and "is_success out"
  shows "\<exists>sid k kvs.
           py_item (body req) ''sessionId'' = Some sid \<and> hash_key sid = Some k \<and>
           call_gemini e gemini = Inr (JObj kvs) \<and>
           response_field out ''extractedIntelligence'' =
             Some (dict_get kvs ''extractedIntelligence'' (JObj [])) \<and>
           (if truthy (dict_get kvs ''isConversationOver'' (JBool False)) then store' k = None
            else map_option intelligence (store' k) =
                   Some (dict_get kvs ''extractedIntelligence'' (JObj [])))"
proof -
  from handle_success [OF assms] obtain sid msg kvs k where
    v: "validate (body req) = Inr (sid, msg)" and
    g: "call_gemini e gemini = Inr (JObj kvs)" and
    k: "hash_key sid = Some k" and
    out: "out = success_response (dict_get kvs ''agentResponseText'' JNull)
                  (dict_get kvs ''isConversationOver'' (JBool False)) sid
                  (dict_get kvs ''extractedIntelligence'' (JObj []))
                  (dict_get kvs ''agentNotes'' (JStr []))" and
    st: "\<exists>xs. store' = (if truthy (dict_get kvs ''isConversationOver'' (JBool False))
                    then store(k := None)
                    else store(k \<mapsto>
                      \<lparr>history = JArr (xs @ [msg, agent_turn (dict_get kvs ''agentResponseText'' JNull)]),
                       intelligence = dict_get kvs ''extractedIntelligence'' (JObj []),
                       agent_notes = dict_get kvs ''agentNotes'' (JStr [])\<rparr>))"
    by blast
  from validate_Inr [OF v] have "py_item (body req) ''sessionId'' = Some sid" by simp
  moreover from out have "response_field out ''extractedIntelligence'' =
             Some (dict_get kvs ''extractedIntelligence'' (JObj []))"
    by (simp add: success_response_def)
  moreover from st have
    "if truthy (dict_get kvs ''isConversationOver'' (JBool False)) then store' k = None
     else map_option intelligence (store' k) =
            Some (dict_get kvs ''extractedIntelligence'' (JObj []))"
    by auto
  ultimately show ?thesis using g k by blast
qed

theorem intelligence_is_latest_delta_witness:
  "is_success (fst (handle_honeypot_request ex_env ex_req (ok_reply ''{}'') RequestException ex_store))
   \<and> map_option intelligence (ex_store (KStr ''s1''))
       = Some (JObj [(''upiIds'', JArr [JStr ''a@upi''])])
   \<and> response_field
         (fst (handle_honeypot_request ex_env ex_req (ok_reply ''{}'') RequestException ex_store))
         ''extractedIntelligence'' = Some (JObj [])
   \<and> map_option intelligence
         (fst (snd (handle_honeypot_request ex_env ex_req (ok_reply ''{}'') RequestException ex_store))
            (KStr ''s1'')) = Some (JObj [])"
proof -
  let ?H = "handle_honeypot_request ex_env ex_req (ok_reply ''{}'') RequestException ex_store"
  have h: "?H = (fst ?H, fst (snd ?H), snd (snd ?H))" by simp
  have ok: "is_success (fst ?H)" by (simp add: ex_second_turn success_basics)
  have s: "py_item (body ex_req) ''sessionId'' = Some (JStr ''s1'')" by (simp add: ex_req_def)
  from intelligence_is_latest_delta [OF h ok] ex_gemini_empty s
  have "response_field (fst ?H) ''extractedIntelligence'' = Some (JObj []) \<and>
        map_option intelligence (fst (snd ?H) (KStr ''s1'')) = Some (JObj [])"
    by (auto simp: dict_get_def)
  with ok show ?thesis by (simp add: ex_store_def)
qed

text \<open>
  C2. As stated the claim fails for a status that is neither a success nor an error
  status. Only \<^verbatim>\<open>raise_for_status\<close> (line 149) looks at the status, and it raises for
  400 to 599 alone: a reply with status 302 whose body is a well-formed envelope is
  processed like a reply with status 200. The turn ends in the success response and the
  session stored before, with its artifact, is overwritten.
\<close>

theorem redirect_status_counterexample:
  "redirect_reply =
     Response \<lparr>status_code = 302,
               json_body = Some (JObj [(''candidates'',
                 JArr [JObj [(''content'', JObj [(''parts'', JArr [JObj [(''text'', JStr txt_hi)]])])]])]),
               body_text = []\<rparr>
   \<and> is_success (fst (handle_honeypot_request ex_env ex_req redirect_reply RequestException ex_store))
   \<and> map_option intelligence (ex_store (KStr ''s1''))
       = Some (JObj [(''upiIds'', JArr [JStr ''a@upi''])])
   \<and> map_option intelligence
        (fst (snd (handle_honeypot_request ex_env ex_req redirect_reply RequestException ex_store))
           (KStr ''s1''))
       = Some (JObj [])
   \<and> fst (snd (handle_honeypot_request ex_env ex_req redirect_reply RequestException ex_store))
       \<noteq> ex_store"
proof -
  let ?H = "handle_honeypot_request ex_env ex_req redirect_reply RequestException ex_store"
  have a: "is_success (fst ?H)" by (simp add: ex_redirect_turn success_basics)
  have b: "map_option intelligence (ex_store (KStr ''s1''))
             = Some (JObj [(''upiIds'', JArr [JStr ''a@upi''])])"
    by (simp add: ex_store_def)
  have c: "map_option intelligence (fst (snd ?H) (KStr ''s1'')) = Some (JObj [])"
    by (simp add: ex_redirect_turn)
  from b c have d: "fst (snd ?H) \<noteq> ex_store" by auto
  from a b c d show ?thesis by (simp add: redirect_reply_def)
qed

text \<open>
  C2, amended. Atomicity under a failure of the model call, where the call fails when
  \<^verbatim>\<open>requests.post\<close> raises, the status is an error status (400 to 599), the envelope
  is not JSON or has no string at the place of the text, or the embedded text does not
  parse. Then, whatever the standard output takes, the turn does not end in the success
  response: the caller gets a response with a status and a message only, or an exception
  leaves the view function and the framework answers with a server error. The store
  afterwards is the store before: history, intelligence and notes of every session are
  untouched and no entry is added. A reply with any other status and a body that parses
  is not a failure of the call.
\<close>

theorem gateway_failure_leaves_store:
  assumes "handle_honeypot_request_on stdout e req gemini report store = (out, store', evs)"
      and "call_gemini e gemini = Inl f"
  shows "\<not> is_success out
       \<and> (out = Unhandled \<or> (\<exists>m code. out = error_response m code))
       \<and> store' = store"
proof (cases "authorized e req")
  case False
  with assms(1) show ?thesis
    by (auto simp: handle_honeypot_request_on_def error_response_def)
next
  case au: True
  show ?thesis
  proof (cases "validate (body req)")
    case (Inl o')
    with assms(1) au have "out = o'" "store' = store"
      by (simp_all add: handle_honeypot_request_on_def)
    with validate_Inl_not_success [OF Inl] validate_Inl_shape [OF Inl] show ?thesis by auto
  next
    case (Inr p)
    obtain sid msg where p: "p = (sid, msg)" by (cases p)
    show ?thesis
    proof (cases "resolve_history (body req) sid store")
      case None
      with assms(1) au Inr p show ?thesis by (simp add: handle_honeypot_request_on_def)
    next
      case (Some q)
      obtain ch sh where q: "q = (ch, sh)" by (cases q)
      show ?thesis
      proof (cases "build_contents ch msg")
        case None
        with assms(1) au Inr p Some q show ?thesis by (simp add: handle_honeypot_request_on_def)
      next
        case (Some c)
        show ?thesis
        proof (cases f)
          case (HTTPError r)
          with assms au Inr p \<open>resolve_history (body req) sid store = Some q\<close> q Some
          have "out = on_http_error stdout e r" "store' = store"
            by (simp_all add: handle_honeypot_request_on_def)
          with on_http_error_fails [of stdout e r] on_http_error_form [of stdout e r]
          show ?thesis by auto
        next
          case OtherException
          with assms au Inr p \<open>resolve_history (body req) sid store = Some q\<close> q Some
          have "out = on_exception stdout sid" "store' = store"
            by (simp_all add: handle_honeypot_request_on_def)
          with on_exception_fails [of stdout sid] on_exception_form [of stdout sid]
          show ?thesis by auto
        qed
      qed
    qed
  qed
qed

theorem gateway_failure_leaves_store_witness:
  "call_gemini ex_env busy_reply =
     Inl (HTTPError \<lparr>status_code = 503, json_body = None, body_text = ''busy''\<rparr>)
   \<and> \<not> is_success (fst (handle_honeypot_request_on every_line ex_env ex_req busy_reply
                           RequestException ex_store))
   \<and> fst (snd (handle_honeypot_request_on every_line ex_env ex_req busy_reply
                  RequestException ex_store)) = ex_store
   \<and> call_gemini ex_env RequestException = Inl OtherException
   \<and> \<not> is_success (fst (handle_honeypot_request_on every_line ex_env ex_req RequestException
                           RequestException ex_store))
   \<and> fst (snd (handle_honeypot_request_on every_line ex_env ex_req RequestException
                  RequestException ex_store)) = ex_store"
proof -
  let ?A = "handle_honeypot_request_on every_line ex_env ex_req busy_reply RequestException ex_store"
  let ?B = "handle_honeypot_request_on every_line ex_env ex_req RequestException RequestException
              ex_store"
  have g: "call_gemini ex_env busy_reply =
     Inl (HTTPError \<lparr>status_code = 503, json_body = None, body_text = ''busy''\<rparr>)"
    by (simp add: call_gemini_def busy_reply_def)
  have g': "call_gemini ex_env RequestException = Inl OtherException"
    by (simp add: call_gemini_def)
  have a: "?A = (fst ?A, fst (snd ?A), snd (snd ?A))" by simp
  have b: "?B = (fst ?B, fst (snd ?B), snd (snd ?B))" by simp
  from gateway_failure_leaves_store [OF a g] gateway_failure_leaves_store [OF b g'] g g'
  show ?thesis by simp
qed






text \<open>
  C5. As stated the claim fails when the last of the N turns ends the conversation: a
  successful turn with a true \<open>conversationIsOver\<close> removes the session (line 180).
  After the one successful turn of a fresh session whose reply ends the conversation
  nothing is stored for the session, and not a history of length 2.
\<close>

theorem terminal_turn_counterexample:
  "py_item (body ex_req) ''conversationHistory'' = None
   \<and> fst (run_turns ex_env [(ex_req, ok_reply txt_over, RequestException)] Map.empty)
       = [success_response JNull (JBool True) (JStr ''s1'') (JObj []) (JStr [])]
   \<and> is_success (success_response JNull (JBool True) (JStr ''s1'') (JObj []) (JStr []))
   \<and> snd (run_turns ex_env [(ex_req, ok_reply txt_over, RequestException)] Map.empty)
        (KStr ''s1'') = None
   \<and> stored_history
        (snd (run_turns ex_env [(ex_req, ok_reply txt_over, RequestException)] Map.empty))
        (KStr ''s1'') = Some []"
proof -
  have q: "py_item (body ex_req) ''conversationHistory'' = None" by (simp add: ex_req_def)
  have ok: "is_success (success_response JNull (JBool True) (JStr ''s1'') (JObj []) (JStr []))"
    by (simp add: success_basics)
  from q ok show ?thesis unfolding ex_over_run by (simp add: stored_history_def)
qed

text \<open>
  C5, amended. Two turns of history per exchange, scammer first. Take the life of one
  session: its id has no entry in the store at the start, no request carries a
  \<open>conversationHistory\<close>, every turn ends in the success response, and all turns
  before the last have a false \<open>conversationIsOver\<close>. The transcript of these N turns
  is, for each turn in the order of the run, the message of the request followed by the
  turn of sender \<open>agent\<close> whose text is the reply returned and whose timestamp is
  \<open>N/A\<close>; it has length 2N. When the last turn has a false \<open>conversationIsOver\<close> this
  transcript is the history stored for the session; when it has a true one the session
  is removed and the report that was posted counts 2N messages.
\<close>

theorem history_two_per_turn:
  assumes run: "run_turns e ts store = (outs, s1)"
      and fresh: "store k = None"
      and key: "hash_key sid = Some k"
      and reqs: "\<forall>u \<in> set (ts @ [t]). py_item (body (fst u)) ''sessionId'' = Some sid \<and>
                                     py_item (body (fst u)) ''conversationHistory'' = None"
      and active: "\<forall>out' \<in> set outs. is_success out' \<and>
                     (\<exists>v. response_field out' ''conversationIsOver'' = Some v \<and> \<not> truthy v)"
      and last: "handle_honeypot_request e (fst t) (fst (snd t)) (snd (snd t)) s1 = (out, s2, evs)"
      and ok: "is_success out"
  shows "length (concat (map exchange (zip (ts @ [t]) (outs @ [out])))) = 2 * length (ts @ [t])
       \<and> (\<exists>v. response_field out ''conversationIsOver'' = Some v \<and>
              (if truthy v
               then s2 k = None \<and>
                    (\<exists>p. ReportPost p \<in> set evs \<and>
                         py_item p ''totalMessagesExchanged''
                           = Some (JNum (int (2 * length (ts @ [t])))))
               else stored_history s2 k
                      = Some (concat (map exchange (zip (ts @ [t]) (outs @ [out]))))
                    \<and> s2 k \<noteq> None))"
proof -
  let ?pre = "concat (map exchange (zip ts outs))"
  from fresh have e0: "stored_history store k = Some []" by (simp add: stored_history_def)
  from reqs have reqs': "\<forall>u \<in> set ts. py_item (body (fst u)) ''sessionId'' = Some sid \<and>
                                     py_item (body (fst u)) ''conversationHistory'' = None"
    and rt: "py_item (body (fst t)) ''sessionId'' = Some sid"
            "py_item (body (fst t)) ''conversationHistory'' = None"
    by simp_all
  from run_turns_history [OF run key reqs' active e0]
  have pre: "stored_history s1 k = Some ?pre" and len: "length ?pre = 2 * length ts"
    by simp_all
  from run_turns_length [OF run] have z: "zip (ts @ [t]) (outs @ [out]) = zip ts outs @ [(t, out)]"
    by simp
  from exchange_of_success [OF last ok] have l2: "length (exchange (t, out)) = 2" .
  from z len l2 have total: "length (concat (map exchange (zip (ts @ [t]) (outs @ [out]))))
                              = 2 * length (ts @ [t])"
    by simp
  from handle_success [OF last ok] obtain sid' kvs where
    out: "out = success_response (dict_get kvs ''agentResponseText'' JNull)
                  (dict_get kvs ''isConversationOver'' (JBool False)) sid'
                  (dict_get kvs ''extractedIntelligence'' (JObj []))
                  (dict_get kvs ''agentNotes'' (JStr []))"
    by blast
  let ?v = "dict_get kvs ''isConversationOver'' (JBool False)"
  from out have f: "response_field out ''conversationIsOver'' = Some ?v"
    by (simp add: success_response_def)
  have "if truthy ?v
        then s2 k = None \<and>
             (\<exists>p. ReportPost p \<in> set evs \<and>
                  py_item p ''totalMessagesExchanged'' = Some (JNum (int (2 * length (ts @ [t])))))
        else stored_history s2 k = Some (concat (map exchange (zip (ts @ [t]) (outs @ [out]))))
             \<and> s2 k \<noteq> None"
  proof (cases "truthy ?v")
    case True
    from handle_terminal_report [OF last ok f True] obtain sid'' xs sh intel nts where
      s: "py_item (body (fst t)) ''sessionId'' = Some sid''" and
      r: "resolve_history (body (fst t)) sid'' s1 = Some (JArr xs, sh)" and
      p: "ReportPost (report_payload sid'' (length xs + 2) intel nts) \<in> set evs"
      by blast
    from s rt(1) have "sid'' = sid" by simp
    with r have r': "resolve_history (body (fst t)) sid s1 = Some (JArr xs, sh)" by simp
    from resolved_is_stored [OF rt key pre r'] len have "length xs + 2 = 2 * length (ts @ [t])"
      by simp
    with p have "\<exists>p. ReportPost p \<in> set evs \<and>
                  py_item p ''totalMessagesExchanged'' = Some (JNum (int (2 * length (ts @ [t]))))"
      by (intro exI [of _ "report_payload sid'' (length xs + 2) intel nts"])
         (simp add: report_payload_def)
    moreover from handle_success [OF last ok] f True rt(1) key have "s2 k = None"
      by (auto simp: success_response_def dest!: validate_Inr split: if_splits)
    ultimately show ?thesis using True by simp
  next
    case False
    from handle_appends_exchange [OF last ok f False rt key pre] z False
    show ?thesis by simp
  qed
  with total f show ?thesis by blast
qed

theorem history_two_per_turn_witness:
  "(Map.empty :: session_store) (KStr ''s1'') = None
   \<and> hash_key (JStr ''s1'') = Some (KStr ''s1'')
   \<and> py_item (body ex_req) ''sessionId'' = Some (JStr ''s1'')
   \<and> py_item (body ex_req) ''conversationHistory'' = None
   \<and> run_turns ex_env [(ex_req, ok_reply txt_hi, RequestException)] Map.empty
       = ([success_response (JStr ''hi'') (JBool False) (JStr ''s1'') (JObj []) (JStr [])],
          ex_store_hi)
   \<and> is_success (fst (handle_honeypot_request ex_env ex_req (ok_reply txt_over)
                         RequestException ex_store_hi))
   \<and> (\<exists>p. ReportPost p \<in> set (snd (snd (handle_honeypot_request ex_env ex_req (ok_reply txt_over)
                                              RequestException ex_store_hi))) \<and>
           py_item p ''totalMessagesExchanged'' = Some (JNum 4))
   \<and> is_success (fst (handle_honeypot_request ex_env ex_req (ok_reply ''{}'')
                         RequestException ex_store_hi))
   \<and> stored_history
        (fst (snd (handle_honeypot_request ex_env ex_req (ok_reply ''{}'')
                     RequestException ex_store_hi)))
        (KStr ''s1'')
       = Some [ex_msg,
               JObj [(''sender'', JStr ''agent''), (''text'', JStr ''hi''),
                     (''timestamp'', JStr ''N/A'')],
               ex_msg,
               JObj [(''sender'', JStr ''agent''), (''text'', JNull),
                     (''timestamp'', JStr ''N/A'')]]"
proof -
  let ?t1 = "(ex_req, ok_reply txt_hi, RequestException)"
  let ?ta = "(ex_req, ok_reply txt_over, RequestException)"
  let ?tb = "(ex_req, ok_reply ''{}'', RequestException)"
  let ?o1 = "success_response (JStr ''hi'') (JBool False) (JStr ''s1'') (JObj []) (JStr [])"
  let ?A = "handle_honeypot_request ex_env ex_req (ok_reply txt_over) RequestException ex_store_hi"
  let ?B = "handle_honeypot_request ex_env ex_req (ok_reply ''{}'') RequestException ex_store_hi"
  have f: "(Map.empty :: session_store) (KStr ''s1'') = None" by simp
  have k: "hash_key (JStr ''s1'') = Some (KStr ''s1'')" by simp
  have q: "py_item (body ex_req) ''sessionId'' = Some (JStr ''s1'')"
          "py_item (body ex_req) ''conversationHistory'' = None"
    by (simp_all add: ex_req_def)
  have qa: "\<forall>u \<in> set ([?t1] @ [?ta]). py_item (body (fst u)) ''sessionId'' = Some (JStr ''s1'') \<and>
                                     py_item (body (fst u)) ''conversationHistory'' = None"
    using q by simp
  have qb: "\<forall>u \<in> set ([?t1] @ [?tb]). py_item (body (fst u)) ''sessionId'' = Some (JStr ''s1'') \<and>
                                     py_item (body (fst u)) ''conversationHistory'' = None"
    using q by simp
  have act: "\<forall>out' \<in> set [?o1]. is_success out' \<and>
               (\<exists>v. response_field out' ''conversationIsOver'' = Some v \<and> \<not> truthy v)"
    by (simp add: success_response_def)
  have a: "handle_honeypot_request ex_env (fst ?ta) (fst (snd ?ta)) (snd (snd ?ta)) ex_store_hi
             = (fst ?A, fst (snd ?A), snd (snd ?A))"
    by simp
  have b: "handle_honeypot_request ex_env (fst ?tb) (fst (snd ?tb)) (snd (snd ?tb)) ex_store_hi
             = (fst ?B, fst (snd ?B), snd (snd ?B))"
    by simp
  have oka: "is_success (fst ?A)" by (simp add: ex_hi_then_over success_basics)
  have okb: "is_success (fst ?B)" by (simp add: ex_hi_then_empty success_basics)
  have fa: "response_field (fst ?A) ''conversationIsOver'' = Some (JBool True)"
    by (simp add: ex_hi_then_over success_response_def)
  have fb: "response_field (fst ?B) ''conversationIsOver'' = Some (JBool False)"
    by (simp add: ex_hi_then_empty success_response_def)
  have xb: "concat (map exchange (zip ([?t1] @ [?tb]) ([?o1] @ [fst ?B])))
              = [ex_msg,
               JObj [(''sender'', JStr ''agent''), (''text'', JStr ''hi''),
                     (''timestamp'', JStr ''N/A'')],
               ex_msg,
               JObj [(''sender'', JStr ''agent''), (''text'', JNull),
                     (''timestamp'', JStr ''N/A'')]]"
    unfolding ex_hi_then_empty
    by (simp add: exchange_def ex_req_def ex_msg_def success_response_def)
  from history_two_per_turn [OF ex_hi_run f k qa act a oka] fa
  have A: "\<exists>p. ReportPost p \<in> set (snd (snd ?A)) \<and>
                py_item p ''totalMessagesExchanged'' = Some (JNum 4)"
    by simp
  from history_two_per_turn [OF ex_hi_run f k qb act b okb] fb xb
  have B: "stored_history (fst (snd ?B)) (KStr ''s1'')
             = Some [ex_msg,
               JObj [(''sender'', JStr ''agent''), (''text'', JStr ''hi''),
                     (''timestamp'', JStr ''N/A'')],
               ex_msg,
               JObj [(''sender'', JStr ''agent''), (''text'', JNull),
                     (''timestamp'', JStr ''N/A'')]]"
    by simp
  from f k q ex_hi_run oka A okb B show ?thesis by blast
qed

text \<open>
  C6. The report dispatcher never raises, and its failure does not block the turn. The
  code falls short of the claim where the failure cannot be printed. Lines 89 and 93
  print the session id of the caller; for the session id of one lone surrogate, on a
  standard output in UTF-8, the print raises an error that is no \<^verbatim>\<open>RequestException\<close>,
  so the clause of line 92 does not catch it and \<^verbatim>\<open>send_final_report\<close> raises. For the
  first turn of that session, when the reply of the model ends the conversation and the
  report meets a network error or a status 503: the clause of line 211 raises in turn at
  its own print of the session id, an exception leaves the view function, and the session
  stored at line 169 is still in the store, line 180 not being reached. On a standard
  output that takes every line the same turn ends in the success response and the
  session is removed.
\<close>

theorem report_print_raises:
  "fst (send_final_report utf8_stdout RequestException (JStr lone_surrogate) 2 (JObj []) (JStr []))
     = Inl ()
   \<and> handle_honeypot_request_on utf8_stdout ex_env ex_req_surrogate (ok_reply txt_over)
       RequestException Map.empty
     = (Unhandled,
        Map.empty(KStr lone_surrogate \<mapsto>
          \<lparr>history = JArr [ex_msg, JObj [(''sender'', JStr ''agent''), (''text'', JNull),
                                        (''timestamp'', JStr ''N/A'')]],
           intelligence = JObj [],
           agent_notes = JStr []\<rparr>),
        [GeminiPost ex_contents,
         ReportPost (JObj [(''sessionId'', JStr lone_surrogate),
                           (''scamDetected'', JBool True),
                           (''totalMessagesExchanged'', JNum 2),
                           (''extractedIntelligence'', JObj []),
                           (''agentNotes'', JStr [])])])
   \<and> fst (handle_honeypot_request_on utf8_stdout ex_env ex_req_surrogate (ok_reply txt_over)
            busy_reply Map.empty)
     = Unhandled
   \<and> fst (snd (handle_honeypot_request_on utf8_stdout ex_env ex_req_surrogate (ok_reply txt_over)
                  busy_reply Map.empty)) (KStr lone_surrogate)
     \<noteq> None
   \<and> handle_honeypot_request_on every_line ex_env ex_req_surrogate (ok_reply txt_over)
       RequestException Map.empty
     = (success_response JNull (JBool True) (JStr lone_surrogate) (JObj []) (JStr []),
        Map.empty,
        [GeminiPost ex_contents,
         ReportPost (JObj [(''sessionId'', JStr lone_surrogate),
                           (''scamDetected'', JBool True),
                           (''totalMessagesExchanged'', JNum 2),
                           (''extractedIntelligence'', JObj []),
                           (''agentNotes'', JStr [])]),
         CallbackFailed])"
  by (simp add: send_final_report_def utf8_stdout_def every_line_def
        handle_honeypot_request_on_def authorized_def
        ex_env_def ex_req_surrogate_def validate_def resolve_history_def build_contents_def
        content_entry_def call_gemini_def ok_reply_def busy_reply_def model_output_text_def
        ex_loads_def txt_upi_def txt_over_def txt_hi_def quoted_def complete_turn_def
        on_exception_def append_history_def dict_get_def ex_msg_def agent_turn_def
        lone_surrogate_def report_payload_def ex_contents_def success_response_def)

text \<open>
  C7. Authentication and validation come before every state change. The code falls short
  of the claim on a body that is not an object: for the authenticated request whose
  JSON body is the number 5, which has no \<open>sessionId\<close>, the membership test of line 107
  raises outside the \<^verbatim>\<open>try\<close> block, so the caller does not get the bad-request response.
  The store is left as it was and the model is not called.
\<close>

theorem validation_misses_non_object_body:
  "authorized ex_env ex_req_number
   \<and> py_item (body ex_req_number) ''sessionId'' = None
   \<and> handle_honeypot_request ex_env ex_req_number (ok_reply ''{}'') RequestException ex_store =
       (Unhandled, ex_store, [])"
  by (simp add: handle_honeypot_request_def handle_honeypot_request_on_def on_exception_def every_line_def authorized_def ex_env_def ex_req_number_def validate_def)

text \<open>
  C8. As stated the claim fails: the model's result names one category only, and the
  record returned and stored after that successful turn has that one key and no
  \<open>bankAccounts\<close>.
\<close>

theorem category_keys_counterexample:
  "is_success (fst (handle_honeypot_request ex_env ex_req (ok_reply txt_upi) RequestException Map.empty))
   \<and> response_field
        (fst (handle_honeypot_request ex_env ex_req (ok_reply txt_upi) RequestException Map.empty))
        ''extractedIntelligence'' = Some (JObj [(''upiIds'', JArr [JStr ''a@upi''])])
   \<and> py_in ''bankAccounts'' (JObj [(''upiIds'', JArr [JStr ''a@upi''])]) = Some False
   \<and> map_option intelligence
        (fst (snd (handle_honeypot_request ex_env ex_req (ok_reply txt_upi) RequestException Map.empty))
           (KStr ''s1'')) = Some (JObj [(''upiIds'', JArr [JStr ''a@upi''])])"
  by (simp add: ex_first_turn success_basics) (simp add: success_response_def ex_store_def)

text \<open>
  C8, amended. After every successful turn the \<open>extractedIntelligence\<close> returned to the
  caller has a category key exactly when the \<open>extractedIntelligence\<close> of the model's
  result has it; when the result has no \<open>extractedIntelligence\<close> the returned record has
  none of the five keys; and the record left in the store for the session, if any, is the
  returned one.
\<close>

theorem category_keys_as_delivered:
  assumes "handle_honeypot_request e req gemini report store = (out, store', evs)"
      and "is_success out"
  shows "\<exists>kvs intel.
           call_gemini e gemini = Inr (JObj kvs) \<and>
           response_field out ''extractedIntelligence'' = Some intel \<and>
           (\<forall>c \<in> set categories.
              py_in c intel = py_in c (dict_get kvs ''extractedIntelligence'' (JObj []))) \<and>
           (map_of kvs ''extractedIntelligence'' = None \<longrightarrow>
              (\<forall>c \<in> set categories. py_in c intel = Some False)) \<and>
           (\<forall>sid k s. py_item (body req) ''sessionId'' = Some sid \<and> hash_key sid = Some k \<and>
                      store' k = Some s \<longrightarrow> intelligence s = intel)"
proof -
  from handle_success [OF assms] obtain sid msg kvs k where
    v: "validate (body req) = Inr (sid, msg)" and
    g: "call_gemini e gemini = Inr (JObj kvs)" and
    k: "hash_key sid = Some k" and
    out: "out = success_response (dict_get kvs ''agentResponseText'' JNull)
                  (dict_get kvs ''isConversationOver'' (JBool False)) sid
                  (dict_get kvs ''extractedIntelligence'' (JObj []))
                  (dict_get kvs ''agentNotes'' (JStr []))" and
    st: "\<exists>xs. store' = (if truthy (dict_get kvs ''isConversationOver'' (JBool False))
                    then store(k := None)
                    else store(k \<mapsto>
                      \<lparr>history = JArr (xs @ [msg, agent_turn (dict_get kvs ''agentResponseText'' JNull)]),
                       intelligence = dict_get kvs ''extractedIntelligence'' (JObj []),
                       agent_notes = dict_get kvs ''agentNotes'' (JStr [])\<rparr>))"
    by blast
  let ?intel = "dict_get kvs ''extractedIntelligence'' (JObj [])"
  have 1: "response_field out ''extractedIntelligence'' = Some ?intel"
    using out by (simp add: success_response_def)
  have 2: "map_of kvs ''extractedIntelligence'' = None \<longrightarrow>
              (\<forall>c \<in> set categories. py_in c ?intel = Some False)"
    by (simp add: dict_get_absent)
  have 3: "\<forall>sid' k' s. py_item (body req) ''sessionId'' = Some sid' \<and> hash_key sid' = Some k' \<and>
                      store' k' = Some s \<longrightarrow> intelligence s = ?intel"
    using validate_Inr [OF v] k st by (auto split: if_splits)
  show ?thesis
    by (rule exI [of _ kvs], rule exI [of _ ?intel]) (use g 1 2 3 in simp)
qed

theorem category_keys_as_delivered_witness:
  "is_success (fst (handle_honeypot_request ex_env ex_req (ok_reply ''{}'') RequestException ex_store))
   \<and> ''bankAccounts'' \<in> set categories
   \<and> map_of ([] :: (string \<times> json) list) ''extractedIntelligence'' = None
   \<and> (\<exists>intel. response_field
         (fst (handle_honeypot_request ex_env ex_req (ok_reply ''{}'') RequestException ex_store))
         ''extractedIntelligence'' = Some intel \<and> py_in ''bankAccounts'' intel = Some False)"
proof -
  let ?H = "handle_honeypot_request ex_env ex_req (ok_reply ''{}'') RequestException ex_store"
  have h: "?H = (fst ?H, fst (snd ?H), snd (snd ?H))" by simp
  have ok: "is_success (fst ?H)" by (simp add: ex_second_turn success_basics)
  have c: "''bankAccounts'' \<in> set categories" by (simp add: categories_def)
  have m: "map_of ([] :: (string \<times> json) list) ''extractedIntelligence'' = None" by simp
  from category_keys_as_delivered [OF h ok] ex_gemini_empty c m
  have "\<exists>intel. response_field (fst ?H) ''extractedIntelligence'' = Some intel \<and>
          py_in ''bankAccounts'' intel = Some False"
    by auto
  with ok c m show ?thesis by blast
qed




text \<open>
  C10. An empty caller history counts as none. For a request whose
  \<open>conversationHistory\<close> is the empty list and whose session has an entry in the store,
  the history the handler works on is the stored one; the resolution is the same as for
  any body without the member, and the whole handler gives the same result as on the
  same body with the member removed. A caller history that is not empty (any truthy
  value) is taken as it is, whatever the store holds.
\<close>

theorem empty_history_like_absent:
  "(map_of kvs ''conversationHistory'' = Some (JArr []) \<and> hash_key sid = Some k \<and> store k = Some s \<longrightarrow>
      resolve_history (JObj kvs) sid store = Some (history s, Some k))
   \<and> (map_of kvs ''conversationHistory'' = Some (JArr []) \<and> map_of kvs' ''conversationHistory'' = None \<longrightarrow>
      resolve_history (JObj kvs) sid store = resolve_history (JObj kvs') sid store)
   \<and> (map_of kvs ''conversationHistory'' = Some (JArr []) \<longrightarrow>
      handle_honeypot_request e (req\<lparr>body := JObj kvs\<rparr>) gemini report store =
      handle_honeypot_request e
        (req\<lparr>body := JObj (filter (\<lambda>kv. fst kv \<noteq> ''conversationHistory'') kvs)\<rparr>) gemini report store)
   \<and> (map_of kvs ''conversationHistory'' = Some v \<and> truthy v \<longrightarrow>
      resolve_history (JObj kvs) sid store = Some (v, None))"
proof -
  have A: "map_of kvs ''conversationHistory'' = Some (JArr []) \<and> hash_key sid = Some k \<and> store k = Some s \<longrightarrow>
      resolve_history (JObj kvs) sid store = Some (history s, Some k)"
    by (simp add: resolve_history_empty_or_absent)
  have B: "map_of kvs ''conversationHistory'' = Some (JArr []) \<and> map_of kvs' ''conversationHistory'' = None \<longrightarrow>
      resolve_history (JObj kvs) sid store = resolve_history (JObj kvs') sid store"
    by (simp add: resolve_history_empty_or_absent)
  have C: "map_of kvs ''conversationHistory'' = Some (JArr []) \<longrightarrow>
      handle_honeypot_request e (req\<lparr>body := JObj kvs\<rparr>) gemini report store =
      handle_honeypot_request e
        (req\<lparr>body := JObj (filter (\<lambda>kv. fst kv \<noteq> ''conversationHistory'') kvs)\<rparr>) gemini report store"
  proof
    assume m: "map_of kvs ''conversationHistory'' = Some (JArr [])"
    let ?kvs' = "filter (\<lambda>kv. fst kv \<noteq> ''conversationHistory'') kvs"
    have v: "validate (JObj ?kvs') = validate (JObj kvs)" using m by (rule validate_without_history)
    have r: "\<And>sid. resolve_history (JObj ?kvs') sid store = resolve_history (JObj kvs) sid store"
      using m by (simp add: resolve_history_empty_or_absent map_of_filter_self)
    show "handle_honeypot_request e (req\<lparr>body := JObj kvs\<rparr>) gemini report store =
          handle_honeypot_request e (req\<lparr>body := JObj ?kvs'\<rparr>) gemini report store"
      by (auto simp: handle_honeypot_request_def handle_honeypot_request_on_def on_exception_def every_line_def authorized_def v r split: sum.splits)
  qed
  have D: "map_of kvs ''conversationHistory'' = Some v \<and> truthy v \<longrightarrow>
      resolve_history (JObj kvs) sid store = Some (v, None)"
    by (simp add: resolve_history_def dict_get_def)
  from A B C D show ?thesis by blast
qed

theorem empty_history_like_absent_witness:
  "map_of ex_body_empty_history ''conversationHistory'' = Some (JArr [])
   \<and> map_of (filter (\<lambda>kv. fst kv \<noteq> ''conversationHistory'') ex_body_empty_history)
        ''conversationHistory'' = None
   \<and> hash_key (JStr ''s1'') = Some (KStr ''s1'')
   \<and> ex_store (KStr ''s1'') =
        Some \<lparr>history = JArr [ex_msg, agent_turn JNull],
              intelligence = JObj [(''upiIds'', JArr [JStr ''a@upi''])],
              agent_notes = JStr []\<rparr>
   \<and> resolve_history (JObj ex_body_empty_history) (JStr ''s1'') ex_store
        = Some (JArr [ex_msg, agent_turn JNull], Some (KStr ''s1''))
   \<and> resolve_history (JObj ex_body_empty_history) (JStr ''s1'') ex_store
        = resolve_history (body ex_req) (JStr ''s1'') ex_store
   \<and> handle_honeypot_request ex_env (ex_req\<lparr>body := JObj ex_body_empty_history\<rparr>)
        (ok_reply txt_hi) RequestException ex_store
        = handle_honeypot_request ex_env ex_req (ok_reply txt_hi) RequestException ex_store
   \<and> map_of ex_body_own_history ''conversationHistory'' = Some (JArr [ex_msg])
   \<and> truthy (JArr [ex_msg])
   \<and> resolve_history (JObj ex_body_own_history) (JStr ''s1'') ex_store = Some (JArr [ex_msg], None)"
proof -
  have m1: "map_of ex_body_empty_history ''conversationHistory'' = Some (JArr [])"
    by (simp add: ex_body_empty_history_def)
  have f: "filter (\<lambda>kv. fst kv \<noteq> ''conversationHistory'') ex_body_empty_history
             = [(''sessionId'', JStr ''s1''), (''message'', ex_msg)]"
    by (simp add: ex_body_empty_history_def)
  have m2: "map_of (filter (\<lambda>kv. fst kv \<noteq> ''conversationHistory'') ex_body_empty_history)
        ''conversationHistory'' = None"
    by (simp add: f)
  have b: "body ex_req = JObj (filter (\<lambda>kv. fst kv \<noteq> ''conversationHistory'') ex_body_empty_history)"
    by (simp add: f ex_req_def ex_msg_def)
  have r: "ex_req\<lparr>body := JObj (filter (\<lambda>kv. fst kv \<noteq> ''conversationHistory'') ex_body_empty_history)\<rparr>
             = ex_req"
    by (simp add: f ex_req_def ex_msg_def)
  have k: "hash_key (JStr ''s1'') = Some (KStr ''s1'')" by simp
  have s: "ex_store (KStr ''s1'') =
        Some \<lparr>history = JArr [ex_msg, agent_turn JNull],
              intelligence = JObj [(''upiIds'', JArr [JStr ''a@upi''])],
              agent_notes = JStr []\<rparr>"
    by (simp add: ex_store_def)
  have m3: "map_of ex_body_own_history ''conversationHistory'' = Some (JArr [ex_msg])"
    by (simp add: ex_body_own_history_def)
  have t: "truthy (JArr [ex_msg])" by simp
  note T = empty_history_like_absent
  from T [of ex_body_empty_history "JStr ''s1''" "KStr ''s1''" ex_store] m1 k s
  have A: "resolve_history (JObj ex_body_empty_history) (JStr ''s1'') ex_store
        = Some (JArr [ex_msg, agent_turn JNull], Some (KStr ''s1''))"
    by simp
  from T [of ex_body_empty_history "JStr ''s1''" _ ex_store _
            "filter (\<lambda>kv. fst kv \<noteq> ''conversationHistory'') ex_body_empty_history"] m1 m2 b
  have B: "resolve_history (JObj ex_body_empty_history) (JStr ''s1'') ex_store
        = resolve_history (body ex_req) (JStr ''s1'') ex_store"
    by simp
  from T [of ex_body_empty_history _ _ ex_store _ _ ex_env ex_req "ok_reply txt_hi" RequestException]
    m1 r
  have C: "handle_honeypot_request ex_env (ex_req\<lparr>body := JObj ex_body_empty_history\<rparr>)
        (ok_reply txt_hi) RequestException ex_store
        = handle_honeypot_request ex_env ex_req (ok_reply txt_hi) RequestException ex_store"
    by simp
  from T [of ex_body_own_history "JStr ''s1''" _ ex_store _ _ _ _ _ _ "JArr [ex_msg]"] m3 t
  have D: "resolve_history (JObj ex_body_own_history) (JStr ''s1'') ex_store = Some (JArr [ex_msg], None)"
    by simp
  from m1 m2 k s A B C m3 t D show ?thesis by blast
qed

end
